theory Spec2Isabelle
  imports Complex_Main
begin

section \<open>JavaScript values\<close>

text \<open>
  The script works on values decoded from JSON replies. A value is one of the JSON
  shapes, or \<open>undefined\<close> (what reading a missing property gives). Numbers carry
  the exact rational value of the binary64 number; strings are byte strings. An object
  is the list of its members in the order of the reply.
\<close>

datatype jsval =
    JUndefined
  | JNull
  | JBool bool
  | JNum rat
  | JStr string
  | JArr "jsval list"
  | JObj "(string \<times> jsval) list"

text \<open>
  What a failed operation throws. \<open>Error m\<close> is \<^verbatim>\<open>new Error(m)\<close> with the value
  handed to the constructor (for a string, the message itself); \<open>TypeError\<close>
  is the engine's error for a property read on \<open>null\<close>/\<open>undefined\<close> and
  for a call of something that is not a function; \<open>SyntaxError\<close> is what
  \<^verbatim>\<open>resp.json()\<close> rejects with on a body that is not JSON; \<open>NetworkError\<close> is
  the rejection of \<^verbatim>\<open>fetch\<close> itself.
\<close>

datatype js_error = Error jsval | TypeError | SyntaxError | NetworkError

text \<open>ToBoolean, as used by \<^verbatim>\<open>if (x)\<close>, \<^verbatim>\<open>!x\<close>, \<^verbatim>\<open>x ? a : b\<close> and \<^verbatim>\<open>x || y\<close>.\<close>

fun truthy :: "jsval \<Rightarrow> bool" where
  "truthy JUndefined = False"
| "truthy JNull = False"
| "truthy (JBool b) = b"
| "truthy (JNum x) = (x \<noteq> 0)"
| "truthy (JStr s) = (s \<noteq> [])"
| "truthy (JArr xs) = True"
| "truthy (JObj kvs) = True"

text \<open>
  An object decoded from JSON keeps, for a repeated member name, the last value.
\<close>

definition own_member :: "(string \<times> jsval) list \<Rightarrow> string \<Rightarrow> jsval" where
  "own_member kvs k = (case map_of (rev kvs) k of None \<Rightarrow> JUndefined | Some v \<Rightarrow> v)"

text \<open>
  The property read \<^verbatim>\<open>v.k\<close> for the data properties the script reads
  (\<^verbatim>\<open>error\<close>, \<^verbatim>\<open>message\<close>, \<^verbatim>\<open>predictions\<close>, \<^verbatim>\<open>length\<close>, \<^verbatim>\<open>t\<close>, \<^verbatim>\<open>v\<close>,
  \<^verbatim>\<open>type\<close>): it throws on \<open>null\<close> and \<open>undefined\<close>, reads the member of an
  object, gives the length of an array or a string, and \<open>undefined\<close> otherwise.
\<close>

fun getprop :: "jsval \<Rightarrow> string \<Rightarrow> js_error + jsval" where
  "getprop JUndefined k = Inl TypeError"
| "getprop JNull k = Inl TypeError"
| "getprop (JObj kvs) k = Inr (own_member kvs k)"
| "getprop (JArr xs) k = Inr (if k = ''length'' then JNum (of_nat (length xs)) else JUndefined)"
| "getprop (JStr s) k = Inr (if k = ''length'' then JNum (of_nat (length s)) else JUndefined)"
| "getprop (JBool b) k = Inr JUndefined"
| "getprop (JNum x) k = Inr JUndefined"

section \<open>Decimal digits\<close>

text \<open>The decimal digits of a natural number, as a template literal prints it.\<close>

definition digit :: "nat \<Rightarrow> char" where
  "digit n = char_of (48 + n)"

fun show_nat :: "nat \<Rightarrow> string" where
  "show_nat n = (if n < 10 then [digit n] else show_nat (n div 10) @ [digit (n mod 10)])"

declare show_nat.simps [simp del]

section \<open>Data acquisition\<close>

text \<open>
  The outcome of \<^verbatim>\<open>await fetch(url)\<close>: the promise rejects, or resolves to a
  response with the \<^verbatim>\<open>ok\<close> flag, the status code and a body. The body is what
  \<^verbatim>\<open>resp.json()\<close> decodes, \<open>None\<close> when the body is not JSON.
\<close>

record response =
  ok :: bool
  status :: nat
  body :: "jsval option"

datatype fetch_result = Rejected | Resolved response

text \<open>
  \<^verbatim>\<open>
  async function fetchJSON(url){
    const resp = await fetch(url);
    if (!resp.ok){ throw new Error(`HTTP ${resp.status}`); }
    const data = await resp.json();
    if (data.error){ throw new Error(data.error.message || 'API error'); }
    return data;
  }
  \<close>
  The function is the same in both copies of the script. \<open>fetchJSON_resp\<close> is the
  part after the \<^verbatim>\<open>fetch\<close>; \<open>fetchJSON\<close> takes the network as a function from
  the URL to the outcome of the request.
\<close>

definition fetchJSON_resp :: "fetch_result \<Rightarrow> js_error + jsval" where
  "fetchJSON_resp fr =
     (case fr of
        Rejected \<Rightarrow> Inl NetworkError
      | Resolved resp \<Rightarrow>
          if \<not> ok resp then Inl (Error (JStr (''HTTP '' @ show_nat (status resp))))
          else (case body resp of
                  None \<Rightarrow> Inl SyntaxError
                | Some data \<Rightarrow>
                    (case getprop data ''error'' of
                       Inl e \<Rightarrow> Inl e
                     | Inr err \<Rightarrow>
                         if truthy err then
                           (case getprop err ''message'' of
                              Inl e \<Rightarrow> Inl e
                            | Inr m \<Rightarrow> Inl (Error (if truthy m then m else JStr ''API error'')))
                         else Inr data)))"

definition fetchJSON :: "(string \<Rightarrow> fetch_result) \<Rightarrow> string \<Rightarrow> js_error + jsval" where
  "fetchJSON net url = fetchJSON_resp (net url)"

section \<open>Dates\<close>

text \<open>
  A \<^verbatim>\<open>Date\<close> made by \<^verbatim>\<open>new Date()\<close> is its time value: milliseconds since
  the epoch, in UTC. The functions below are the abstract operations of the ECMAScript
  specification that \<^verbatim>\<open>getFullYear\<close>, \<^verbatim>\<open>getMonth\<close>, \<^verbatim>\<open>getDate\<close> and
  \<^verbatim>\<open>setDate\<close> are defined by. The time values of this model are valid and
  unbounded (no \<open>NaN\<close> date, no \<open>TimeClip\<close>).
\<close>

definition msPerDay :: int where
  "msPerDay = 86400000"

definition Day :: "int \<Rightarrow> int" where
  "Day t = t div msPerDay"

definition TimeWithinDay :: "int \<Rightarrow> int" where
  "TimeWithinDay t = t mod msPerDay"

definition DayFromYear :: "int \<Rightarrow> int" where
  "DayFromYear y =
     365 * (y - 1970) + (y - 1969) div 4 - (y - 1901) div 100 + (y - 1601) div 400"

definition DaysInYear :: "int \<Rightarrow> int" where
  "DaysInYear y =
     (if y mod 4 \<noteq> 0 then 365 else if y mod 100 \<noteq> 0 then 366
      else if y mod 400 \<noteq> 0 then 365 else 366)"

text \<open>
  \<open>YearFromTime t\<close> is the year \<open>y\<close> with \<open>DayFromYear y \<le> Day t < DayFromYear (y + 1)\<close>:
  the mean year of 146097 / 400 days gives a year that is off by at most one.
\<close>

definition YearFromTime :: "int \<Rightarrow> int" where
  "YearFromTime t =
     (let d = Day t; y0 = 1970 + (400 * d) div 146097
      in if DayFromYear (y0 + 1) \<le> d then y0 + 1
         else if DayFromYear y0 \<le> d then y0
         else y0 - 1)"

definition InLeapYear :: "int \<Rightarrow> int" where
  "InLeapYear t = (if DaysInYear (YearFromTime t) = 366 then 1 else 0)"

definition DayWithinYear :: "int \<Rightarrow> int" where
  "DayWithinYear t = Day t - DayFromYear (YearFromTime t)"

text \<open>The day of the year on which month \<open>m\<close> (0 to 11) begins; \<open>l\<close> is 1 in a leap year.\<close>

definition monthStart :: "int \<Rightarrow> int \<Rightarrow> int" where
  "monthStart m l =
     (if m = 0 then 0 else if m = 1 then 31 else if m = 2 then 59 + l
      else if m = 3 then 90 + l else if m = 4 then 120 + l else if m = 5 then 151 + l
      else if m = 6 then 181 + l else if m = 7 then 212 + l else if m = 8 then 243 + l
      else if m = 9 then 273 + l else if m = 10 then 304 + l else 334 + l)"

definition MonthFromTime :: "int \<Rightarrow> int" where
  "MonthFromTime t =
     (let d = DayWithinYear t; l = InLeapYear t
      in if d < 31 then 0 else if d < 59 + l then 1 else if d < 90 + l then 2
         else if d < 120 + l then 3 else if d < 151 + l then 4 else if d < 181 + l then 5
         else if d < 212 + l then 6 else if d < 243 + l then 7 else if d < 273 + l then 8
         else if d < 304 + l then 9 else if d < 334 + l then 10 else 11)"

definition DateFromTime :: "int \<Rightarrow> int" where
  "DateFromTime t = DayWithinYear t - monthStart (MonthFromTime t) (InLeapYear t) + 1"

definition MakeDay :: "int \<Rightarrow> int \<Rightarrow> int \<Rightarrow> int" where
  "MakeDay year month date =
     (let ym = year + month div 12; mn = month mod 12
      in DayFromYear ym + monthStart mn (if DaysInYear ym = 366 then 1 else 0) + date - 1)"

definition MakeDate :: "int \<Rightarrow> int \<Rightarrow> int" where
  "MakeDate day time = day * msPerDay + time"

text \<open>
  The local time zone of the browser: the offset from UTC in milliseconds, once as a
  function of a UTC time value (\<open>LocalTZA(t, true)\<close>) and once as a function of a
  local time value (\<open>LocalTZA(t, false)\<close>).
\<close>

record timezone =
  tza_utc :: "int \<Rightarrow> int"
  tza_local :: "int \<Rightarrow> int"

definition LocalTime :: "timezone \<Rightarrow> int \<Rightarrow> int" where
  "LocalTime z t = t + tza_utc z t"

definition UTC :: "timezone \<Rightarrow> int \<Rightarrow> int" where
  "UTC z t = t - tza_local z t"

definition getFullYear :: "timezone \<Rightarrow> int \<Rightarrow> int" where
  "getFullYear z tv = YearFromTime (LocalTime z tv)"

definition getMonth :: "timezone \<Rightarrow> int \<Rightarrow> int" where
  "getMonth z tv = MonthFromTime (LocalTime z tv)"

definition getDate :: "timezone \<Rightarrow> int \<Rightarrow> int" where
  "getDate z tv = DateFromTime (LocalTime z tv)"

definition setDate :: "timezone \<Rightarrow> int \<Rightarrow> int \<Rightarrow> int" where
  "setDate z tv dt =
     (let t = LocalTime z tv;
          newDate = MakeDate (MakeDay (YearFromTime t) (MonthFromTime t) dt) (TimeWithinDay t)
      in UTC z newDate)"

text \<open>
  \<^verbatim>\<open>
  function last7Next7(){
    const now = new Date();
    const begin = new Date(now);
    begin.setDate(now.getDate() - 7);
    const end = new Date(now);
    end.setDate(now.getDate() + 7);
    return {begin, end};
  }
  \<close>
  The current time is an argument. The result is the pair (begin, end).
\<close>

definition last7Next7 :: "timezone \<Rightarrow> int \<Rightarrow> int \<times> int" where
  "last7Next7 z now =
     (let beginD = setDate z now (getDate z now - 7);
          endD = setDate z now (getDate z now + 7)
      in (beginD, endD))"

text \<open>
  \<^verbatim>\<open>
  function fmtDate(date){
    const y = date.getFullYear();
    const m = String(date.getMonth()+1).padStart(2, '0');
    const d = String(date.getDate()).padStart(2, '0');
    return `${y}${m}${d}`;
  }
  \<close>
\<close>

definition show_int :: "int \<Rightarrow> string" where
  "show_int i = (if i < 0 then CHR ''-'' # show_nat (nat (- i)) else show_nat (nat i))"

definition padStart :: "nat \<Rightarrow> char \<Rightarrow> string \<Rightarrow> string" where
  "padStart n c s = replicate (n - length s) c @ s"

definition fmtDate :: "timezone \<Rightarrow> int \<Rightarrow> string" where
  "fmtDate z date =
     (let y = getFullYear z date;
          m = padStart 2 (CHR ''0'') (show_int (getMonth z date + 1));
          d = padStart 2 (CHR ''0'') (show_int (getDate z date))
      in show_int y @ m @ d)"

section \<open>Request URLs\<close>

definition STATION_ID :: string where
  "STATION_ID = ''9447856''"

definition API_BASE :: string where
  "API_BASE = ''https://api.tidesandcurrents.noaa.gov/api/prod/datagetter''"

definition localTZ :: string where
  "localTZ = ''lst_ldt''"

text \<open>
  \<^verbatim>\<open>URLSearchParams\<close> is a list of name-value pairs. \<^verbatim>\<open>set\<close> overwrites the first
  pair of that name and drops the others, or appends a pair when there is none.
  \<^verbatim>\<open>toString\<close> is the \<^verbatim>\<open>application/x-www-form-urlencoded\<close> serialiser: letters,
  digits and \<^verbatim>\<open>* - . _\<close> are kept, a space becomes \<^verbatim>\<open>+\<close>, every other byte
  becomes \<^verbatim>\<open>%XX\<close>; pairs are joined by \<^verbatim>\<open>&\<close>.
\<close>

fun params_set :: "(string \<times> string) list \<Rightarrow> string \<Rightarrow> string \<Rightarrow> (string \<times> string) list" where
  "params_set [] k v = [(k, v)]"
| "params_set ((k', v') # ps) k v =
     (if k' = k then (k, v) # filter (\<lambda>p. fst p \<noteq> k) ps else (k', v') # params_set ps k v)"

definition unreserved :: "char \<Rightarrow> bool" where
  "unreserved c =
     (let n = (of_char c :: nat)
      in (48 \<le> n \<and> n \<le> 57) \<or> (65 \<le> n \<and> n \<le> 90) \<or> (97 \<le> n \<and> n \<le> 122)
         \<or> c = CHR ''*'' \<or> c = CHR ''-'' \<or> c = CHR ''.'' \<or> c = CHR ''_'')"

definition hexdigit :: "nat \<Rightarrow> char" where
  "hexdigit n = ''0123456789ABCDEF'' ! n"

definition encode_char :: "char \<Rightarrow> string" where
  "encode_char c =
     (if unreserved c then [c]
      else if c = CHR '' '' then ''+''
      else [CHR ''%'', hexdigit ((of_char c :: nat) div 16), hexdigit ((of_char c :: nat) mod 16)])"

definition urlencode :: "string \<Rightarrow> string" where
  "urlencode s = concat (map encode_char s)"

fun join_amp :: "string list \<Rightarrow> string" where
  "join_amp [] = []"
| "join_amp [x] = x"
| "join_amp (x # y # ys) = x @ ''&'' @ join_amp (y # ys)"

definition params_toString :: "(string \<times> string) list \<Rightarrow> string" where
  "params_toString ps = join_amp (map (\<lambda>(k, v). urlencode k @ ''='' @ urlencode v) ps)"

text \<open>
  \<^verbatim>\<open>
  function buildUrl({begin, end, product, interval, datum, units}){
    const params = new URLSearchParams({
      product, application: 'Jeremy.Whidbey.Tides',
      begin_date: fmtDate(begin), end_date: fmtDate(end),
      datum, station: STATION_ID, time_zone: localTZ(), units, format: 'json'
    });
    if (interval) params.set('interval', interval);
    return `${API_BASE}?${params.toString()}`;
  }
  \<close>
  The argument object is a record; \<open>a_interval\<close> is \<open>None\<close> when the caller leaves the
  property out. \<open>buildParams\<close> is the parameter list at the point of \<^verbatim>\<open>toString\<close>.
\<close>

record url_args =
  a_begin :: int
  a_end :: int
  a_product :: string
  a_interval :: "string option"
  a_datum :: string
  a_units :: string

definition buildParams :: "timezone \<Rightarrow> url_args \<Rightarrow> (string \<times> string) list" where
  "buildParams z a =
     (let params =
            [(''product'', a_product a),
             (''application'', ''Jeremy.Whidbey.Tides''),
             (''begin_date'', fmtDate z (a_begin a)),
             (''end_date'', fmtDate z (a_end a)),
             (''datum'', a_datum a),
             (''station'', STATION_ID),
             (''time_zone'', localTZ),
             (''units'', a_units a),
             (''format'', ''json'')]
      in case a_interval a of
           None \<Rightarrow> params
         | Some i \<Rightarrow> if i \<noteq> [] then params_set params ''interval'' i else params)"

definition buildUrl :: "timezone \<Rightarrow> url_args \<Rightarrow> string" where
  "buildUrl z a = API_BASE @ ''?'' @ params_toString (buildParams z a)"

section \<open>Numbers\<close>

text \<open>
  The result of \<^verbatim>\<open>Number(v)\<close>: not a number, an infinity (\<open>True\<close> for the
  negative one) or a finite binary64 number, given by its exact value.
\<close>

datatype jsnum = NaN | Infinity bool | Finite rat

text \<open>
  Two operations of the engine depend on the binary64 format and are parameters of
  the model: \<open>StringToNumber\<close>, which reads a numeric string and rounds it to the nearest
  binary64 number, and \<open>NumberToString\<close>, which prints a finite number with the
  fewest digits that read back as the same number.
\<close>

record numerics =
  StringToNumber :: "string \<Rightarrow> jsnum"
  NumberToString :: "rat \<Rightarrow> string"

text \<open>
  \<^verbatim>\<open>Number(v)\<close>. An object becomes the string \<^verbatim>\<open>[object Object]\<close> and an array its
  elements joined by commas before the string is read; a string with a comma is not a
  number, and a number printed and read again is the same number.
\<close>

fun ToNumber :: "numerics \<Rightarrow> jsval \<Rightarrow> jsnum" where
  "ToNumber js JUndefined = NaN"
| "ToNumber js JNull = Finite 0"
| "ToNumber js (JBool b) = Finite (if b then 1 else 0)"
| "ToNumber js (JNum r) = Finite r"
| "ToNumber js (JStr s) = StringToNumber js s"
| "ToNumber js (JObj kvs) = NaN"
| "ToNumber js (JArr []) = StringToNumber js []"
| "ToNumber js (JArr [JUndefined]) = StringToNumber js []"
| "ToNumber js (JArr [JNull]) = StringToNumber js []"
| "ToNumber js (JArr [JBool b]) = NaN"
| "ToNumber js (JArr [JNum r]) = Finite r"
| "ToNumber js (JArr [JStr s]) = StringToNumber js s"
| "ToNumber js (JArr [JObj kvs]) = NaN"
| "ToNumber js (JArr [JArr xs]) = ToNumber js (JArr xs)"
| "ToNumber js (JArr (v # w # vs)) = NaN"

text \<open>
  \<^verbatim>\<open>x.toFixed(2)\<close>: below \<open>10\<^sup>2\<^sup>1\<close> the integer \<open>n\<close> nearest to \<open>100 |x|\<close>
  (the larger one of two) is printed with at least three digits and a point before the
  last two; a negative \<open>x\<close> gets a minus sign.
\<close>

definition toFixed2 :: "numerics \<Rightarrow> jsnum \<Rightarrow> string" where
  "toFixed2 js x =
     (case x of
        NaN \<Rightarrow> ''NaN''
      | Infinity neg \<Rightarrow> (if neg then ''-Infinity'' else ''Infinity'')
      | Finite r \<Rightarrow>
          (let s = (if r < 0 then ''-'' else []);
               r' = \<bar>r\<bar>
           in if 10 ^ 21 \<le> r' then s @ NumberToString js r'
              else
                (let n = nat \<lfloor>r' * 100 + 1 / 2\<rfloor>;
                     m = padStart 3 (CHR ''0'') (show_nat n);
                     k = length m
                 in s @ take (k - 2) m @ ''.'' @ drop (k - 2) m)))"

section \<open>The page\<close>

text \<open>
  \<^verbatim>\<open>new Date(str)\<close> for a string is kept as the string it is made from: how the
  engine reads it, and how it prints it in the user's locale, is not part of the script.
\<close>

datatype jsdate = Date string

text \<open>A point of the scatter dataset: \<^verbatim>\<open>{ x: ..., y: ..., type: p.type }\<close>.\<close>

record hilo_point =
  pt_x :: jsdate
  pt_y :: jsnum
  pt_type :: jsval

text \<open>
  The configuration handed to \<^verbatim>\<open>new Chart\<close>: the labels, the line dataset (its label
  and data), the scatter dataset (its label and data), the title of the y axis, and the
  unit label that the tooltip callback closes over. The constant styling is left out.
\<close>

record chart_config =
  labels :: "jsdate list"
  line_label :: string
  line_data :: "jsnum list"
  scatter_label :: string
  scatter_data :: "hilo_point list"
  y_title :: string
  tooltip_unit :: string

text \<open>
  A cell of the table: the date in the user's locale, the time in the user's locale, or
  a text.
\<close>

datatype cell = LocaleDate jsdate | LocaleTime jsdate | Text string

text \<open>
  What has happened on the page, in order: a request sent, a warning on the console,
  the calls of the three presentation functions with their arguments, and the
  destruction and construction of a chart.
\<close>

datatype event =
    Fetched string
  | Warned js_error
  | NoteCalled bool
  | ChartCalled jsval jsval string
  | TableCalled jsval string
  | Destroyed nat
  | Created nat chart_config

text \<open>
  The state of the page: the variable \<^verbatim>\<open>chart\<close> (\<open>None\<close> is \<open>undefined\<close>), the
  chart instances that have been constructed and not destroyed, the number of the next
  instance, the text of the note, the rows of the table body, and the history.
\<close>

record page =
  chart :: "nat option"
  live :: "nat set"
  next_chart :: nat
  hiloNote :: string
  tbody :: "cell list list"
  history :: "event list"

definition initial_page :: page where
  "initial_page =
     \<lparr>chart = None, live = {}, next_chart = 0, hiloNote = [], tbody = [], history = []\<rparr>"

definition record_event :: "event \<Rightarrow> page \<Rightarrow> page" where
  "record_event e st = st\<lparr>history := history st @ [e]\<rparr>"

section \<open>Presentation\<close>

text \<open>Sequencing of steps that may throw.\<close>

definition bindE :: "js_error + 'a \<Rightarrow> ('a \<Rightarrow> js_error + 'b) \<Rightarrow> js_error + 'b" where
  "bindE m f = (case m of Inl e \<Rightarrow> Inl e | Inr v \<Rightarrow> f v)"

text \<open>
  \<^verbatim>\<open>
  function toLocalISO(s){ const dt = new Date(s.replace(' ', 'T')); return dt; }
  function toLocalDate(s){ return new Date(s.replace(' ', 'T')); }
  \<close>
  The first copy of the script calls it \<^verbatim>\<open>toLocalISO\<close>, the second
  \<^verbatim>\<open>toLocalDate\<close>. \<^verbatim>\<open>replace\<close> with a string pattern replaces the first match;
  only a string has the method.
\<close>

fun replace_first :: "char \<Rightarrow> char \<Rightarrow> string \<Rightarrow> string" where
  "replace_first a b [] = []"
| "replace_first a b (c # cs) = (if c = a then b # cs else c # replace_first a b cs)"

fun toLocalISO :: "jsval \<Rightarrow> js_error + jsdate" where
  "toLocalISO (JStr s) = Inr (Date (replace_first (CHR '' '') (CHR ''T'') s))"
| "toLocalISO v = Inl TypeError"

text \<open>
  \<^verbatim>\<open>a.map(f)\<close> for a callback that may throw: only an array has the method, and
  the first callback that throws ends the call.
\<close>

fun mapE :: "('a \<Rightarrow> js_error + 'b) \<Rightarrow> 'a list \<Rightarrow> js_error + 'b list" where
  "mapE f [] = Inr []"
| "mapE f (v # vs) =
     (case f v of
        Inl e \<Rightarrow> Inl e
      | Inr w \<Rightarrow> (case mapE f vs of Inl e \<Rightarrow> Inl e | Inr ws \<Rightarrow> Inr (w # ws)))"

fun array_map :: "(jsval \<Rightarrow> js_error + 'b) \<Rightarrow> jsval \<Rightarrow> js_error + 'b list" where
  "array_map f (JArr vs) = mapE f vs"
| "array_map f v = Inl TypeError"

text \<open>
  \<^verbatim>\<open>
  function setHiloNote(supportsHourly){
    const note = document.getElementById('hiloNote');
    note.textContent = supportsHourly
      ? 'Showing verified high/low times alongside hourly predictions.'
      : 'Station provides high/low predictions only; no hourly series available.';
  }
  \<close>
\<close>

definition setHiloNote :: "bool \<Rightarrow> page \<Rightarrow> page" where
  "setHiloNote supportsHourly st =
     (record_event (NoteCalled supportsHourly) st)
       \<lparr>hiloNote :=
          (if supportsHourly
           then ''Showing verified high/low times alongside hourly predictions.''
           else ''Station provides high/low predictions only; no hourly series available.'')\<rparr>"

text \<open>The unit label of both presentation functions.\<close>

definition unitLabel :: "string \<Rightarrow> string" where
  "unitLabel units = (if units = ''metric'' then ''m'' else ''ft'')"

text \<open>The three callbacks of \<^verbatim>\<open>map\<close> in \<^verbatim>\<open>renderChart\<close>.\<close>

definition label_of :: "jsval \<Rightarrow> js_error + jsdate" where
  "label_of p = bindE (getprop p ''t'') toLocalISO"

definition value_of :: "numerics \<Rightarrow> jsval \<Rightarrow> js_error + jsnum" where
  "value_of js p = bindE (getprop p ''v'') (\<lambda>v. Inr (ToNumber js v))"

definition point_of :: "numerics \<Rightarrow> jsval \<Rightarrow> js_error + hilo_point" where
  "point_of js p =
     bindE (label_of p) (\<lambda>d.
     bindE (value_of js p) (\<lambda>n.
     bindE (getprop p ''type'') (\<lambda>ty.
     Inr \<lparr>pt_x = d, pt_y = n, pt_type = ty\<rparr>)))"


definition tooltip_label :: "numerics \<Rightarrow> chart_config \<Rightarrow> jsnum \<Rightarrow> string" where
  "tooltip_label js cfg y' = toFixed2 js y' @ '' '' @ tooltip_unit cfg"

text \<open>
  \<^verbatim>\<open>
  function renderChart(hourly, hilo, units){
    const ctx = document.getElementById('tideChart');
    const labels = hourly.length ? hourly.map(p => toLocalISO(p.t)) : hilo.map(p => toLocalISO(p.t));
    const series = hourly.length ? hourly.map(p => Number(p.v)) : hilo.map(p => Number(p.v));
    const hiloPoints = hilo.map(p => ({ x: toLocalISO(p.t), y: Number(p.v), type: p.type }));
    const unitLabel = units === 'metric' ? 'm' : 'ft';
    const data = { labels, datasets: [
        { label: hourly.length ? `Hourly predictions (${unitLabel})` : `High/Low points (${unitLabel})`,
          data: series, ... },
        { type: 'scatter', label: 'High / Low markers', data: hiloPoints, ... } ] };
    const options = { ... scales: { ... y: { title: { display: true, text: `Height (${unitLabel})` }, ... } } };
    if (chart){ chart.destroy(); }
    chart = new Chart(ctx, { type: 'line', data, options });
  }
  \<close>
  The second copy writes the first two lines as
  \<^verbatim>\<open>(hourly.length ? hourly : hilo).map(...)\<close> and computes \<^verbatim>\<open>unitLabel\<close> first;
  the steps that can throw come in the same order. \<open>chart_data\<close> is the part up to
  the configuration, \<open>renderChart\<close> adds the replacement of the chart.
\<close>

definition chart_data :: "numerics \<Rightarrow> jsval \<Rightarrow> jsval \<Rightarrow> string \<Rightarrow> js_error + chart_config" where
  "chart_data js hourly hilo units =
     bindE (getprop hourly ''length'') (\<lambda>len.
     bindE (array_map label_of (if truthy len then hourly else hilo)) (\<lambda>labels'.
     bindE (getprop hourly ''length'') (\<lambda>len2.
     bindE (array_map (value_of js) (if truthy len2 then hourly else hilo)) (\<lambda>series.
     bindE (array_map (point_of js) hilo) (\<lambda>hiloPoints.
     bindE (getprop hourly ''length'') (\<lambda>len3.
     Inr \<lparr>labels = labels',
          line_label =
            (if truthy len3 then ''Hourly predictions ('' @ unitLabel units @ '')''
             else ''High/Low points ('' @ unitLabel units @ '')''),
          line_data = series,
          scatter_label = ''High / Low markers'',
          scatter_data = hiloPoints,
          y_title = ''Height ('' @ unitLabel units @ '')'',
          tooltip_unit = unitLabel units\<rparr>))))))"

definition destroy :: "nat \<Rightarrow> page \<Rightarrow> page" where
  "destroy c st = (record_event (Destroyed c) st)\<lparr>live := live st - {c}\<rparr>"

definition new_Chart :: "chart_config \<Rightarrow> page \<Rightarrow> nat \<times> page" where
  "new_Chart cfg st =
     (let c = next_chart st
      in (c, (record_event (Created c cfg) st)\<lparr>live := insert c (live st), next_chart := Suc c\<rparr>))"

definition renderChart :: "numerics \<Rightarrow> jsval \<Rightarrow> jsval \<Rightarrow> string \<Rightarrow> page \<Rightarrow> (js_error + unit) \<times> page" where
  "renderChart js hourly hilo units st0 =
     (let st = record_event (ChartCalled hourly hilo units) st0
      in case chart_data js hourly hilo units of
           Inl e \<Rightarrow> (Inl e, st)
         | Inr cfg \<Rightarrow>
             (let st1 = (case chart st of Some c \<Rightarrow> destroy c st | None \<Rightarrow> st);
                  (c', st2) = new_Chart cfg st1
              in (Inr (), st2\<lparr>chart := Some c'\<rparr>)))"

text \<open>
  \<^verbatim>\<open>
  function renderTable(hilo, units){
    const tbody = document.querySelector('#hiloTable tbody');
    tbody.innerHTML = '';
    const unitLabel = units === 'metric' ? 'm' : 'ft';
    for (const row of hilo){
      const dt = toLocalDate(row.t);
      const dateStr = dt.toLocaleDateString();
      const timeStr = dt.toLocaleTimeString([], { hour: '2-digit', minute: '2-digit' });
      const typeStr = row.type === 'H' ? 'High' : 'Low';
      const h = Number(row.v).toFixed(2);
      const tr = document.createElement('tr');
      tr.innerHTML = `<td>${dateStr}</td><td>${timeStr}</td><td>${typeStr}</td><td>${h} ${unitLabel}</td>`;
      tbody.appendChild(tr);
    }
  }
  \<close>
  (The first copy creates \<^verbatim>\<open>tr\<close> at the start of the loop body.) \<open>table_row\<close> is
  the body of the loop up to the four cells; \<open>iterate\<close> gives the values that
  \<^verbatim>\<open>for ... of\<close> runs over (the elements of an array, the characters of a string),
  and throws for a value that cannot be iterated. A row that throws leaves the rows
  before it in the table.
\<close>

definition table_row :: "numerics \<Rightarrow> string \<Rightarrow> jsval \<Rightarrow> js_error + cell list" where
  "table_row js units row =
     bindE (label_of row) (\<lambda>dt.
     bindE (getprop row ''type'') (\<lambda>ty.
     bindE (value_of js row) (\<lambda>n.
       (let typeStr = (if ty = JStr ''H'' then ''High'' else ''Low'');
            h = toFixed2 js n
        in Inr [LocaleDate dt, LocaleTime dt, Text typeStr, Text (h @ '' '' @ unitLabel units)]))))"

fun iterate :: "jsval \<Rightarrow> js_error + jsval list" where
  "iterate (JArr vs) = Inr vs"
| "iterate (JStr s) = Inr (map (\<lambda>c. JStr [c]) s)"
| "iterate v = Inl TypeError"

fun table_rows :: "numerics \<Rightarrow> string \<Rightarrow> jsval list \<Rightarrow> page \<Rightarrow> (js_error + unit) \<times> page" where
  "table_rows js units [] st = (Inr (), st)"
| "table_rows js units (row # rows) st =
     (case table_row js units row of
        Inl e \<Rightarrow> (Inl e, st)
      | Inr tr \<Rightarrow> table_rows js units rows (st\<lparr>tbody := tbody st @ [tr]\<rparr>))"

definition renderTable :: "numerics \<Rightarrow> jsval \<Rightarrow> string \<Rightarrow> page \<Rightarrow> (js_error + unit) \<times> page" where
  "renderTable js hilo units st0 =
     (let st = (record_event (TableCalled hilo units) st0)\<lparr>tbody := []\<rparr>
      in case iterate hilo of
           Inl e \<Rightarrow> (Inl e, st)
         | Inr rows \<Rightarrow> table_rows js units rows st)"

section \<open>Loading\<close>

text \<open>
  What a load reads from outside the script: the time zone of the browser, the clock
  (\<^verbatim>\<open>new Date()\<close>), the values of the two selectors, the network and the number
  operations of the engine.
\<close>

record world =
  zone :: timezone
  clock :: int
  datumSel :: string
  unitsSel :: string
  network :: "string \<Rightarrow> fetch_result"
  engine :: numerics

definition isArray :: "jsval \<Rightarrow> bool" where
  "isArray v = (case v of JArr vs \<Rightarrow> True | _ \<Rightarrow> False)"

definition urlHourly :: "world \<Rightarrow> string" where
  "urlHourly w =
     (let (beginD, endD) = last7Next7 (zone w) (clock w)
      in buildUrl (zone w)
           \<lparr>a_begin = beginD, a_end = endD, a_product = ''predictions'',
            a_interval = Some ''60'', a_datum = datumSel w, a_units = unitsSel w\<rparr>)"

definition urlHilo :: "world \<Rightarrow> string" where
  "urlHilo w =
     (let (beginD, endD) = last7Next7 (zone w) (clock w)
      in buildUrl (zone w)
           \<lparr>a_begin = beginD, a_end = endD, a_product = ''predictions'',
            a_interval = Some ''hilo'', a_datum = datumSel w, a_units = unitsSel w\<rparr>)"

text \<open>
  The last three statements of \<^verbatim>\<open>loadData\<close>, the same in both copies:
  \<^verbatim>\<open>
    setHiloNote(supportsHourly);
    renderChart(hourly, hilo, units);
    renderTable(hilo, units);
  \<close>
\<close>

definition present :: "numerics \<Rightarrow> jsval \<Rightarrow> bool \<Rightarrow> jsval \<Rightarrow> string \<Rightarrow> page \<Rightarrow> (js_error + unit) \<times> page" where
  "present js hourly supportsHourly hilo units st2 =
     (let st3 = setHiloNote supportsHourly st2
      in case renderChart js hourly hilo units st3 of
           (Inl e, st4) \<Rightarrow> (Inl e, st4)
         | (Inr u, st4) \<Rightarrow> renderTable js hilo units st4)"

text \<open>
  The first copy of the script (lines 78 to 103):
  \<^verbatim>\<open>
  async function loadData(){
    const {begin, end} = last7Next7();
    const datum = datumSel.value;
    const units = unitsSel.value;
    let hourly = null;
    let supportsHourly = true;
    try{
      const urlHourly = buildUrl({begin, end, product: 'predictions', interval: '60', datum, units});
      const res = await fetchJSON(urlHourly);
      hourly = res.predictions || [];
      if (!hourly.length) supportsHourly = false;
    }catch(e){
      supportsHourly = false;
    }
    const urlHilo = buildUrl({begin, end, product: 'predictions', interval: 'hilo', datum, units});
    const hiloRes = await fetchJSON(urlHilo);
    const hilo = hiloRes.predictions || [];
    setHiloNote(supportsHourly);
    renderChart(hourly, hilo, units);
    renderTable(hilo, units);
  }
  \<close>
  \<open>hourly_v1\<close> is the \<^verbatim>\<open>try\<close> statement: it gives the values of \<^verbatim>\<open>hourly\<close> and
  \<^verbatim>\<open>supportsHourly\<close> after it.
\<close>

definition hourly_v1 :: "world \<Rightarrow> jsval \<times> bool" where
  "hourly_v1 w =
     (case fetchJSON (network w) (urlHourly w) of
        Inl e \<Rightarrow> (JNull, False)
      | Inr res \<Rightarrow>
          (case getprop res ''predictions'' of
             Inl e \<Rightarrow> (JNull, False)
           | Inr p \<Rightarrow>
               (let hourly = (if truthy p then p else JArr [])
                in case getprop hourly ''length'' of
                     Inl e \<Rightarrow> (hourly, False)
                   | Inr len \<Rightarrow> (hourly, (if \<not> truthy len then False else True)))))"

text \<open>
  \<open>extrema_v1\<close> is the rest of the function, from the comment
  \<^verbatim>\<open>// Always get high/low predictions\<close> on, for given values of \<^verbatim>\<open>hourly\<close> and
  \<^verbatim>\<open>supportsHourly\<close>; it ends with the three statements of \<open>present\<close>.
\<close>

definition extrema_v1 :: "world \<Rightarrow> jsval \<Rightarrow> bool \<Rightarrow> page \<Rightarrow> (js_error + unit) \<times> page" where
  "extrema_v1 w hourly supportsHourly st1 =
     (let units = unitsSel w;
          st2 = record_event (Fetched (urlHilo w)) st1
      in case fetchJSON (network w) (urlHilo w) of
           Inl e \<Rightarrow> (Inl e, st2)
         | Inr hiloRes \<Rightarrow>
             (case getprop hiloRes ''predictions'' of
                Inl e \<Rightarrow> (Inl e, st2)
              | Inr p \<Rightarrow>
                  (let hilo = (if truthy p then p else JArr [])
                   in present (engine w) hourly supportsHourly hilo units st2)))"

definition loadData_v1 :: "world \<Rightarrow> page \<Rightarrow> (js_error + unit) \<times> page" where
  "loadData_v1 w st0 =
     (let st1 = record_event (Fetched (urlHourly w)) st0;
          (hourly, supportsHourly) = hourly_v1 w
      in extrema_v1 w hourly supportsHourly st1)"

text \<open>
  The second copy of the script (lines 265 to 305) differs in four places:
  \<^verbatim>\<open>
    let hourly = [];
      ...
      hourly = Array.isArray(res.predictions) ? res.predictions : [];
      ...
    } catch (e) {
      console.warn('Hourly predictions not available:', e);
      supportsHourly = false;
    }
    ...
    const hilo = Array.isArray(hiloRes.predictions) ? hiloRes.predictions : [];
  \<close>
  \<open>hourly_v2\<close> gives, with the two variables, the error that the \<^verbatim>\<open>catch\<close> clause
  has logged; \<open>extrema_v2\<close> is the rest of the function.
\<close>

definition hourly_v2 :: "world \<Rightarrow> jsval \<times> bool \<times> js_error option" where
  "hourly_v2 w =
     (case fetchJSON (network w) (urlHourly w) of
        Inl e \<Rightarrow> (JArr [], False, Some e)
      | Inr res \<Rightarrow>
          (case getprop res ''predictions'' of
             Inl e \<Rightarrow> (JArr [], False, Some e)
           | Inr p \<Rightarrow>
               (let hourly = (if isArray p then p else JArr [])
                in case getprop hourly ''length'' of
                     Inl e \<Rightarrow> (hourly, False, Some e)
                   | Inr len \<Rightarrow> (hourly, (if \<not> truthy len then False else True), None))))"

definition extrema_v2 :: "world \<Rightarrow> jsval \<Rightarrow> bool \<Rightarrow> page \<Rightarrow> (js_error + unit) \<times> page" where
  "extrema_v2 w hourly supportsHourly st1 =
     (let units = unitsSel w;
          st2 = record_event (Fetched (urlHilo w)) st1
      in case fetchJSON (network w) (urlHilo w) of
           Inl e \<Rightarrow> (Inl e, st2)
         | Inr hiloRes \<Rightarrow>
             (case getprop hiloRes ''predictions'' of
                Inl e \<Rightarrow> (Inl e, st2)
              | Inr p \<Rightarrow>
                  (let hilo = (if isArray p then p else JArr [])
                   in present (engine w) hourly supportsHourly hilo units st2)))"

definition loadData_v2 :: "world \<Rightarrow> page \<Rightarrow> (js_error + unit) \<times> page" where
  "loadData_v2 w st0 =
     (let st1 = record_event (Fetched (urlHourly w)) st0;
          (hourly, supportsHourly, caught) = hourly_v2 w;
          st1' = (case caught of Some e \<Rightarrow> record_event (Warned e) st1 | None \<Rightarrow> st1)
      in extrema_v2 w hourly supportsHourly st1')"

section \<open>Sample inputs\<close>

text \<open>
  Concrete inputs for the examples: a browser on UTC; a browser on United States
  Pacific time around the change to daylight saving time on 10 March 2024 (at 10:00
  UTC the local clock goes from 02:00 to 03:00; the engine reads a local time in the
  skipped hour with the offset before the change, so that the offset of a local time
  changes at 03:00); an engine given on the numeric strings of the examples by their
  binary64 values (\<open>3.14159\<close> is \<open>3537115888337719 / 2\<^sup>5\<^sup>0\<close>).
\<close>

definition utc_zone :: timezone where
  "utc_zone = \<lparr>tza_utc = (\<lambda>t. 0), tza_local = (\<lambda>t. 0)\<rparr>"

definition pacific_zone :: timezone where
  "pacific_zone =
     \<lparr>tza_utc = (\<lambda>t. if t < 1710064800000 then - 28800000 else - 25200000),
      tza_local = (\<lambda>t. if t < 1710039600000 then - 28800000 else - 25200000)\<rparr>"

definition sample_engine :: numerics where
  "sample_engine =
     \<lparr>StringToNumber =
        (\<lambda>s. if s = ''3.14159'' then Finite (3537115888337719 / 1125899906842624)
             else if s = ''4.5'' then Finite (9 / 2)
             else NaN),
      NumberToString = (\<lambda>r. [])\<rparr>"

text \<open>Replies of the predictions service: an error payload, and two sets of points.\<close>

definition no_data :: jsval where
  "no_data = JObj [(''error'', JObj [(''message'', JStr ''No data was found.'')])]"

definition hilo_points :: "jsval list" where
  "hilo_points =
     [JObj [(''t'', JStr ''2024-06-08 03:12''), (''v'', JStr ''3.14159''), (''type'', JStr ''H'')],
      JObj [(''t'', JStr ''2024-06-08 09:40''), (''v'', JStr ''4.5''), (''type'', JStr ''L'')]]"

definition hourly_points :: "jsval list" where
  "hourly_points =
     [JObj [(''t'', JStr ''2024-06-08 00:00''), (''v'', JStr ''4.5'')],
      JObj [(''t'', JStr ''2024-06-08 01:00''), (''v'', JStr ''3.14159'')],
      JObj [(''t'', JStr ''2024-06-08 02:00''), (''v'', JStr ''4.5'')]]"

definition hilo_reply :: jsval where
  "hilo_reply = JObj [(''predictions'', JArr hilo_points)]"

definition hourly_reply :: jsval where
  "hourly_reply = JObj [(''predictions'', JArr hourly_points)]"

text \<open>
  Three networks: one on which every request is answered with status 503; one that
  answers the hourly request (the URL ends in \<open>0\<close>) with status 404 and the extrema
  request with two points; one that answers the hourly request with three points and
  the extrema request with two.
\<close>

definition net_down :: "string \<Rightarrow> fetch_result" where
  "net_down url = Resolved \<lparr>ok = False, status = 503, body = None\<rparr>"

definition net_hilo_only :: "string \<Rightarrow> fetch_result" where
  "net_hilo_only url =
     (if last url = CHR ''0'' then Resolved \<lparr>ok = False, status = 404, body = None\<rparr>
      else Resolved \<lparr>ok = True, status = 200, body = Some hilo_reply\<rparr>)"

definition net_full :: "string \<Rightarrow> fetch_result" where
  "net_full url =
     (if last url = CHR ''0'' then Resolved \<lparr>ok = True, status = 200, body = Some hourly_reply\<rparr>
      else Resolved \<lparr>ok = True, status = 200, body = Some hilo_reply\<rparr>)"

definition sample_world :: "(string \<Rightarrow> fetch_result) \<Rightarrow> world" where
  "sample_world net =
     \<lparr>zone = utc_zone, clock = 1717804800000, datumSel = ''MLLW'', unitsSel = ''metric'',
      network = net, engine = sample_engine\<rparr>"

section \<open>Properties of states and histories\<close>

text \<open>
  The events of presentation: a call of one of the three presentation functions, or a
  chart destroyed or constructed. Requests and console warnings are not.
\<close>

fun presentation_event :: "event \<Rightarrow> bool" where
  "presentation_event (Fetched url) = False"
| "presentation_event (Warned e) = False"
| "presentation_event (NoteCalled b) = True"
| "presentation_event (ChartCalled hourly hilo units) = True"
| "presentation_event (TableCalled hilo units) = True"
| "presentation_event (Destroyed c) = True"
| "presentation_event (Created c cfg) = True"

text \<open>
  The events that \<open>renderChart\<close> adds after the event of its call, given the result of
  \<open>chart_data\<close>: none when the data cannot be built; otherwise the destruction of the
  chart in the variable \<^verbatim>\<open>chart\<close>, when there is one, and then the construction of
  the new chart.
\<close>

definition chart_events :: "page \<Rightarrow> js_error + chart_config \<Rightarrow> event list" where
  "chart_events st r =
     (case r of
        Inl e \<Rightarrow> []
      | Inr cfg \<Rightarrow>
          (case chart st of Some c \<Rightarrow> [Destroyed c] | None \<Rightarrow> []) @ [Created (next_chart st) cfg])"

text \<open>
  A point that \<^verbatim>\<open>toLocalISO(p.t)\<close> accepts: its \<^verbatim>\<open>t\<close> member is a string, as in the
  replies of the predictions service.
\<close>

definition has_time :: "jsval \<Rightarrow> bool" where
  "has_time p = (case getprop p ''t'' of Inr (JStr s) \<Rightarrow> True | _ \<Rightarrow> False)"

text \<open>
  The presentation of a number with exactly two fraction digits, in the words of the
  specification: a minus sign for a negative number, the integer part in decimal, a
  point, and two digits, for the number of hundredths nearest to the number (of two
  equally near, the one away from zero).
\<close>

definition two_fraction_digits :: "rat \<Rightarrow> string" where
  "two_fraction_digits r =
     (let n = nat \<lfloor>\<bar>r\<bar> * 100 + 1 / 2\<rfloor>
      in (if r < 0 then ''-'' else [])
         @ show_nat (n div 100) @ ''.'' @ [digit (n div 10 mod 10), digit (n mod 10)])"

text \<open>
  At most one chart: the instances that are constructed and not destroyed are the one
  in the variable \<^verbatim>\<open>chart\<close>, if any.
\<close>

definition one_chart :: "page \<Rightarrow> bool" where
  "one_chart st = (live st = set_option (chart st))"

text \<open>The page after a sequence of loads, for each copy of the script.\<close>

fun session_v1 :: "world list \<Rightarrow> page \<Rightarrow> page" where
  "session_v1 [] st = st"
| "session_v1 (w # ws) st = session_v1 ws (snd (loadData_v1 w st))"

fun session_v2 :: "world list \<Rightarrow> page \<Rightarrow> page" where
  "session_v2 [] st = st"
| "session_v2 (w # ws) st = session_v2 ws (snd (loadData_v2 w st))"

section \<open>Reading a query string\<close>

text \<open>
  How the receiver of a request reads the query string (the parser of
  \<^verbatim>\<open>application/x-www-form-urlencoded\<close>): the string is split at \<^verbatim>\<open>&\<close>, empty
  pieces are dropped, each piece is split at its first \<^verbatim>\<open>=\<close>, and in the name and
  in the value \<^verbatim>\<open>+\<close> is read as a space and \<^verbatim>\<open>%XX\<close> as the byte with that
  hexadecimal code.
\<close>

definition hexval :: "char \<Rightarrow> nat option" where
  "hexval c =
     (let n = (of_char c :: nat)
      in if 48 \<le> n \<and> n \<le> 57 then Some (n - 48)
         else if 65 \<le> n \<and> n \<le> 70 then Some (n - 55)
         else if 97 \<le> n \<and> n \<le> 102 then Some (n - 87)
         else None)"

fun urldecode :: "string \<Rightarrow> string" where
  "urldecode [] = []"
| "urldecode (c # cs) =
     (if c = CHR ''+'' then CHR '' '' # urldecode cs
      else if c = CHR ''%'' then
        (case cs of
           h # l # rest \<Rightarrow>
             (case (hexval h, hexval l) of
                (Some a, Some b) \<Rightarrow> char_of (16 * a + b) # urldecode rest
              | _ \<Rightarrow> c # urldecode cs)
         | _ \<Rightarrow> c # urldecode cs)
      else c # urldecode cs)"

fun split_on :: "char \<Rightarrow> string \<Rightarrow> string list" where
  "split_on c [] = [[]]"
| "split_on c (x # xs) =
     (if x = c then [] # split_on c xs
      else (case split_on c xs of [] \<Rightarrow> [[x]] | p # ps \<Rightarrow> (x # p) # ps))"

definition parse_pair :: "string \<Rightarrow> string \<times> string" where
  "parse_pair p =
     (urldecode (takeWhile (\<lambda>c. c \<noteq> CHR ''='') p),
      urldecode (drop 1 (dropWhile (\<lambda>c. c \<noteq> CHR ''='') p)))"

definition parse_query :: "string \<Rightarrow> (string \<times> string) list" where
  "parse_query s = map parse_pair (filter (\<lambda>p. p \<noteq> []) (split_on (CHR ''&'') s))"

section \<open>Basic facts\<close>

lemma show_nat_400: "show_nat 400 = ''400''"
  by code_simp

lemma show_nat_503: "show_nat 503 = ''503''"
  by code_simp

lemma truthy_has_props: "truthy v \<Longrightarrow> \<exists>m. getprop v k = Inr m"
  by (cases v) auto

lemma hilo_reply_points: "getprop hilo_reply ''predictions'' = Inr (JArr hilo_points)"
  by (simp add: hilo_reply_def own_member_def)

lemma hourly_reply_points: "getprop hourly_reply ''predictions'' = Inr (JArr hourly_points)"
  by (simp add: hourly_reply_def own_member_def)

lemma hilo_points_timed: "\<forall>p\<in>set hilo_points. has_time p"
  by (simp add: hilo_points_def has_time_def own_member_def)

lemma hourly_points_timed: "\<forall>p\<in>set hourly_points. has_time p"
  by (simp add: hourly_points_def has_time_def own_member_def)

section \<open>Failures of fetchJSON\<close>

text \<open>
  C5, as stated, fails. A reply with status 400 whose body is the error payload
  \<^verbatim>\<open>{error:{message:"No data was found."}}\<close> makes \<open>fetchJSON\<close> fail with the message
  \<^verbatim>\<open>HTTP 400\<close>, not with the message of the payload: the status is tested before the
  body is read. And a reply with status 200 whose error payload has no message fails
  with \<^verbatim>\<open>API error\<close>, which is neither a message of the payload nor the status.
\<close>

theorem fetchJSON_status_before_payload:
  "fetchJSON (\<lambda>u. Resolved \<lparr>ok = False, status = 400, body = Some no_data\<rparr>) API_BASE
     = Inl (Error (JStr ''HTTP 400''))
   \<and> fetchJSON (\<lambda>u. Resolved \<lparr>ok = True, status = 200, body = Some (JObj [(''error'', JObj [])])\<rparr>) API_BASE
     = Inl (Error (JStr ''API error''))"
  by (simp add: fetchJSON_def fetchJSON_resp_def show_nat_400 own_member_def)

text \<open>
  C5, amended. For a reply with a status that is not a success, \<open>fetchJSON\<close> fails
  with the message \<^verbatim>\<open>HTTP\<close> and the status, whatever the body is (it is not read).
  For a reply whose body is a JSON value other than \<open>null\<close>, with \<open>err\<close> its
  \<^verbatim>\<open>error\<close> member: \<open>fetchJSON\<close> fails if and only if the status is not a success
  or \<open>err\<close> is truthy; with a success status and a truthy \<open>err\<close> the message is
  \<^verbatim>\<open>err.message\<close> when that is truthy, and \<^verbatim>\<open>API error\<close> otherwise; with a
  success status and no truthy \<open>err\<close> the body is returned.
\<close>

theorem fetchJSON_failure:
  assumes "net url = Resolved r"
  shows "(\<not> ok r \<longrightarrow> fetchJSON net url = Inl (Error (JStr (''HTTP '' @ show_nat (status r)))))
       \<and> (\<forall>data err. body r = Some data \<and> getprop data ''error'' = Inr err \<longrightarrow>
             ((\<exists>e. fetchJSON net url = Inl e) \<longleftrightarrow> (\<not> ok r \<or> truthy err))
           \<and> (ok r \<and> truthy err \<longrightarrow>
                (\<exists>m. getprop err ''message'' = Inr m
                   \<and> fetchJSON net url = Inl (Error (if truthy m then m else JStr ''API error''))))
           \<and> (ok r \<and> \<not> truthy err \<longrightarrow> fetchJSON net url = Inr data))"
proof -
  have res: "fetchJSON net url = fetchJSON_resp (Resolved r)"
    using assms by (simp add: fetchJSON_def)
  have status: "fetchJSON net url = Inl (Error (JStr (''HTTP '' @ show_nat (status r))))"
    if "\<not> ok r"
    using that by (simp add: res fetchJSON_resp_def)
  have payload: "((\<exists>e. fetchJSON net url = Inl e) \<longleftrightarrow> (\<not> ok r \<or> truthy err))
           \<and> (ok r \<and> truthy err \<longrightarrow>
                (\<exists>m. getprop err ''message'' = Inr m
                   \<and> fetchJSON net url = Inl (Error (if truthy m then m else JStr ''API error''))))
           \<and> (ok r \<and> \<not> truthy err \<longrightarrow> fetchJSON net url = Inr data)"
    if b: "body r = Some data" and e: "getprop data ''error'' = Inr err" for data err
  proof (cases "ok r")
    case False
    then show ?thesis
      by (simp add: status)
  next
    case True
    show ?thesis
    proof (cases "truthy err")
      case t: True
      then obtain m where m: "getprop err ''message'' = Inr m"
        using truthy_has_props by blast
      with True t b e show ?thesis
        by (simp add: res fetchJSON_resp_def)
    next
      case False
      with True b e show ?thesis
        by (simp add: res fetchJSON_resp_def)
    qed
  qed
  from status payload show ?thesis
    by blast
qed

text \<open>
  The scenario of the specification: the reply \<^verbatim>\<open>{error:{message:"No data was found."}}\<close>
  with status 200 fails with exactly that message. And a reply with status 503 and a
  body that is not JSON fails with \<^verbatim>\<open>HTTP 503\<close>.
\<close>

theorem fetchJSON_failure_witness:
  "fetchJSON (\<lambda>u. Resolved \<lparr>ok = True, status = 200, body = Some no_data\<rparr>) API_BASE
     = Inl (Error (JStr ''No data was found.''))
   \<and> fetchJSON net_down API_BASE = Inl (Error (JStr ''HTTP 503''))"
proof -
  have a: "fetchJSON (\<lambda>u. Resolved \<lparr>ok = True, status = 200, body = Some no_data\<rparr>) API_BASE
     = Inl (Error (JStr ''No data was found.''))"
    using fetchJSON_failure [of "\<lambda>u. Resolved \<lparr>ok = True, status = 200, body = Some no_data\<rparr>"
      API_BASE "\<lparr>ok = True, status = 200, body = Some no_data\<rparr>"]
    by (simp add: no_data_def own_member_def)
  have b: "fetchJSON net_down API_BASE = Inl (Error (JStr ''HTTP 503''))"
    using fetchJSON_failure [of net_down API_BASE "\<lparr>ok = False, status = 503, body = None\<rparr>"]
    by (simp add: net_down_def show_nat_503)
  from a b show ?thesis ..
qed

section \<open>A failure of the extrema request\<close>

text \<open>
  C1. If the extrema request fails with \<open>e\<close>, then \<open>loadData\<close> fails with \<open>e\<close>, in
  both copies of the script, and the page is as before except for the history, which
  has gained the two requests (and, in the second copy, the console warning of the
  hourly request): the note, the table and the chart are untouched, and no presentation
  function has been called.
\<close>

theorem loadData_extrema_failure:
  assumes "fetchJSON (network w) (urlHilo w) = Inl e"
  shows "loadData_v1 w st =
           (Inl e, st\<lparr>history := history st @ [Fetched (urlHourly w), Fetched (urlHilo w)]\<rparr>)
       \<and> loadData_v2 w st =
           (Inl e, st\<lparr>history := history st @
                [Fetched (urlHourly w)]
                @ (case snd (snd (hourly_v2 w)) of Some e' \<Rightarrow> [Warned e'] | None \<Rightarrow> [])
                @ [Fetched (urlHilo w)]\<rparr>)
       \<and> filter presentation_event (history (snd (loadData_v1 w st)))
           = filter presentation_event (history st)
       \<and> filter presentation_event (history (snd (loadData_v2 w st)))
           = filter presentation_event (history st)"
proof -
  have v1: "loadData_v1 w st =
           (Inl e, st\<lparr>history := history st @ [Fetched (urlHourly w), Fetched (urlHilo w)]\<rparr>)"
    using assms
    by (simp add: loadData_v1_def extrema_v1_def record_event_def Let_def split: prod.splits)
  have v2: "loadData_v2 w st =
           (Inl e, st\<lparr>history := history st @
                [Fetched (urlHourly w)]
                @ (case snd (snd (hourly_v2 w)) of Some e' \<Rightarrow> [Warned e'] | None \<Rightarrow> [])
                @ [Fetched (urlHilo w)]\<rparr>)"
    using assms
    by (simp add: loadData_v2_def extrema_v2_def record_event_def Let_def
             split: prod.splits option.splits)
  have p1: "filter presentation_event (history (snd (loadData_v1 w st)))
           = filter presentation_event (history st)"
    by (simp add: v1)
  have p2: "filter presentation_event (history (snd (loadData_v2 w st)))
           = filter presentation_event (history st)"
    by (simp add: v2 split: option.splits)
  from v1 v2 p1 p2 show ?thesis
    by blast
qed

theorem loadData_extrema_failure_witness:
  "fst (loadData_v1 (sample_world net_down) initial_page) = Inl (Error (JStr ''HTTP 503''))
   \<and> fst (loadData_v2 (sample_world net_down) initial_page) = Inl (Error (JStr ''HTTP 503''))
   \<and> tbody (snd (loadData_v1 (sample_world net_down) initial_page)) = []
   \<and> chart (snd (loadData_v2 (sample_world net_down) initial_page)) = None"
proof -
  have "fetchJSON (network (sample_world net_down)) (urlHilo (sample_world net_down))
          = Inl (Error (JStr ''HTTP 503''))"
    by (simp add: fetchJSON_def fetchJSON_resp_def sample_world_def net_down_def show_nat_503)
  from loadData_extrema_failure [OF this, of initial_page]
  show ?thesis
    by (simp add: initial_page_def)
qed

section \<open>The hourly request\<close>

lemma buildParams_eq:
  "buildParams z a =
     [(''product'', a_product a),
      (''application'', ''Jeremy.Whidbey.Tides''),
      (''begin_date'', fmtDate z (a_begin a)),
      (''end_date'', fmtDate z (a_end a)),
      (''datum'', a_datum a),
      (''station'', ''9447856''),
      (''time_zone'', ''lst_ldt''),
      (''units'', a_units a),
      (''format'', ''json'')]
     @ (case a_interval a of
          None \<Rightarrow> []
        | Some i \<Rightarrow> if i = [] then [] else [(''interval'', i)])"
  by (simp add: buildParams_def STATION_ID_def localTZ_def split: option.splits)

lemma urlencode_60: "urlencode ''60'' = ''60''"
  by (simp add: urlencode_def encode_char_def unreserved_def)

lemma urlencode_hilo: "urlencode ''hilo'' = ''hilo''"
  by (simp add: urlencode_def encode_char_def unreserved_def)

lemma last_urlHourly: "last (urlHourly w) = CHR ''0''"
  by (simp add: urlHourly_def buildUrl_def params_toString_def buildParams_eq urlencode_60
           split: prod.splits)

lemma last_urlHilo: "last (urlHilo w) = CHR ''o''"
  by (simp add: urlHilo_def buildUrl_def params_toString_def buildParams_eq urlencode_hilo
           split: prod.splits)

lemma show_nat_404: "show_nat 404 = ''404''"
  by code_simp

lemma hourly_v1_fail:
  "fetchJSON (network w) (urlHourly w) = Inl e \<Longrightarrow> hourly_v1 w = (JNull, False)"
  by (simp add: hourly_v1_def)

lemma hourly_v2_fail:
  "fetchJSON (network w) (urlHourly w) = Inl e \<Longrightarrow> hourly_v2 w = (JArr [], False, Some e)"
  by (simp add: hourly_v2_def)

lemma hourly_v1_empty:
  "fetchJSON (network w) (urlHourly w) = Inr res \<Longrightarrow> getprop res ''predictions'' = Inr (JArr [])
     \<Longrightarrow> hourly_v1 w = (JArr [], False)"
  by (simp add: hourly_v1_def)

lemma hourly_v2_empty:
  "fetchJSON (network w) (urlHourly w) = Inr res \<Longrightarrow> getprop res ''predictions'' = Inr (JArr [])
     \<Longrightarrow> hourly_v2 w = (JArr [], False, None)"
  by (simp add: hourly_v2_def isArray_def)

lemma history_table_rows: "history (snd (table_rows js units rows st)) = history st"
  by (induction rows arbitrary: st) (auto split: sum.splits)

lemma history_renderTable:
  "history (snd (renderTable js hilo units st)) = history st @ [TableCalled hilo units]"
  by (simp add: renderTable_def record_event_def history_table_rows Let_def split: sum.splits)

lemma history_renderChart:
  "history (snd (renderChart js hourly hilo units st)) =
     history st @ [ChartCalled hourly hilo units]
       @ chart_events st (chart_data js hourly hilo units)"
  by (simp add: renderChart_def chart_events_def record_event_def destroy_def new_Chart_def Let_def
           split: sum.splits option.splits)

lemma fst_renderChart:
  "fst (renderChart js hourly hilo units st) =
     (case chart_data js hourly hilo units of Inl e \<Rightarrow> Inl e | Inr cfg \<Rightarrow> Inr ())"
  by (simp add: renderChart_def Let_def new_Chart_def split: sum.splits prod.splits)

lemma history_present:
  "\<exists>rest. history (snd (present js h b hilo units st)) =
      history st @ [NoteCalled b, ChartCalled h hilo units] @ rest"
proof (cases "renderChart js h hilo units (setHiloNote b st)")
  case (Pair r st4)
  have hc: "history st4 = history st @ [NoteCalled b, ChartCalled h hilo units]
              @ chart_events (setHiloNote b st) (chart_data js h hilo units)"
    using history_renderChart [of js h hilo units "setHiloNote b st"] Pair
    by (simp add: setHiloNote_def record_event_def)
  show ?thesis
  proof (cases r)
    case (Inl e)
    with Pair hc show ?thesis by (simp add: present_def)
  next
    case (Inr u)
    with Pair hc show ?thesis by (simp add: present_def history_renderTable)
  qed
qed

lemma extrema_v1_present:
  assumes "fetchJSON (network w) (urlHilo w) = Inr hiloRes"
    and "getprop hiloRes ''predictions'' = Inr p"
  shows "extrema_v1 w h b st =
           present (engine w) h b (if truthy p then p else JArr []) (unitsSel w)
             (record_event (Fetched (urlHilo w)) st)"
  using assms by (simp add: extrema_v1_def Let_def)

lemma extrema_v2_present:
  assumes "fetchJSON (network w) (urlHilo w) = Inr hiloRes"
    and "getprop hiloRes ''predictions'' = Inr p"
  shows "extrema_v2 w h b st =
           present (engine w) h b (if isArray p then p else JArr []) (unitsSel w)
             (record_event (Fetched (urlHilo w)) st)"
  using assms by (simp add: extrema_v2_def Let_def)

text \<open>
  What both copies of \<open>loadData\<close> do when the hourly request throws (\<open>e\<close>), or is
  answered with an empty array of predictions: they set \<^verbatim>\<open>supportsHourly\<close> to false
  and go on with the rest of the function for that value; the extrema request is sent,
  and when it is answered the note is set for \<^verbatim>\<open>supportsHourly = false\<close> and
  \<open>renderChart\<close> is called with the extrema. Whether that call succeeds is another
  matter, and differs between the copies.
\<close>

lemma hourly_failure_continues:
  assumes "fetchJSON (network w) (urlHourly w) = Inl e
           \<or> (fetchJSON (network w) (urlHourly w) = Inr res
                \<and> getprop res ''predictions'' = Inr (JArr []))"
  shows "snd (hourly_v1 w) = False \<and> fst (snd (hourly_v2 w)) = False
       \<and> loadData_v1 w st =
           extrema_v1 w (fst (hourly_v1 w)) False (record_event (Fetched (urlHourly w)) st)
       \<and> (\<exists>warned. loadData_v2 w st =
             extrema_v2 w (JArr []) False
               (st\<lparr>history := history st @ Fetched (urlHourly w) # map Warned warned\<rparr>))
       \<and> (\<forall>hiloRes p.
             fetchJSON (network w) (urlHilo w) = Inr hiloRes \<and> getprop hiloRes ''predictions'' = Inr p
             \<longrightarrow>
             (\<exists>rest. history (snd (loadData_v1 w st)) =
                 history st
                 @ [Fetched (urlHourly w), Fetched (urlHilo w), NoteCalled False,
                    ChartCalled (fst (hourly_v1 w)) (if truthy p then p else JArr []) (unitsSel w)]
                 @ rest)
           \<and> (\<exists>warned rest. history (snd (loadData_v2 w st)) =
                 history st
                 @ [Fetched (urlHourly w)] @ map Warned warned
                 @ [Fetched (urlHilo w), NoteCalled False,
                    ChartCalled (JArr []) (if isArray p then p else JArr []) (unitsSel w)]
                 @ rest))"
proof -
  from assms have h1: "hourly_v1 w = (JNull, False) \<or> hourly_v1 w = (JArr [], False)"
    using hourly_v1_fail hourly_v1_empty by blast
  from assms obtain warned where h2: "hourly_v2 w = (JArr [], False, warned)"
    using hourly_v2_fail hourly_v2_empty by blast
  have a: "snd (hourly_v1 w) = False" using h1 by auto
  have b: "fst (snd (hourly_v2 w)) = False" using h2 by simp
  have c: "loadData_v1 w st =
           extrema_v1 w (fst (hourly_v1 w)) False (record_event (Fetched (urlHourly w)) st)"
    using h1 by (auto simp: loadData_v1_def Let_def)
  have d: "loadData_v2 w st =
             extrema_v2 w (JArr []) False
               (st\<lparr>history := history st @ Fetched (urlHourly w) # map Warned (case warned of None \<Rightarrow> [] | Some x \<Rightarrow> [x])\<rparr>)"
    using h2 by (simp add: loadData_v2_def Let_def record_event_def split: option.splits)
  have e: "(\<exists>rest. history (snd (loadData_v1 w st)) =
                 history st
                 @ [Fetched (urlHourly w), Fetched (urlHilo w), NoteCalled False,
                    ChartCalled (fst (hourly_v1 w)) (if truthy p then p else JArr []) (unitsSel w)]
                 @ rest)
           \<and> (\<exists>warned rest. history (snd (loadData_v2 w st)) =
                 history st
                 @ [Fetched (urlHourly w)] @ map Warned warned
                 @ [Fetched (urlHilo w), NoteCalled False,
                    ChartCalled (JArr []) (if isArray p then p else JArr []) (unitsSel w)]
                 @ rest)"
    if ok: "fetchJSON (network w) (urlHilo w) = Inr hiloRes" "getprop hiloRes ''predictions'' = Inr p"
    for hiloRes p
  proof
    define hilo1 where "hilo1 = (if truthy p then p else JArr [])"
    obtain rest where "history (snd (present (engine w) (fst (hourly_v1 w)) False hilo1 (unitsSel w)
          (record_event (Fetched (urlHilo w)) (record_event (Fetched (urlHourly w)) st)))) =
        history (record_event (Fetched (urlHilo w)) (record_event (Fetched (urlHourly w)) st))
          @ [NoteCalled False, ChartCalled (fst (hourly_v1 w)) hilo1 (unitsSel w)] @ rest"
      using history_present by blast
    then have "history (snd (loadData_v1 w st)) =
                 history st
                 @ [Fetched (urlHourly w), Fetched (urlHilo w), NoteCalled False,
                    ChartCalled (fst (hourly_v1 w)) hilo1 (unitsSel w)]
                 @ rest"
      by (simp add: c extrema_v1_present [OF ok] record_event_def hilo1_def [symmetric])
    then show "\<exists>rest. history (snd (loadData_v1 w st)) =
                 history st
                 @ [Fetched (urlHourly w), Fetched (urlHilo w), NoteCalled False,
                    ChartCalled (fst (hourly_v1 w)) (if truthy p then p else JArr []) (unitsSel w)]
                 @ rest"
      unfolding hilo1_def by blast
  next
    define hilo2 where "hilo2 = (if isArray p then p else JArr [])"
    define ws where "ws = (case warned of None \<Rightarrow> [] | Some x \<Rightarrow> [x])"
    define st1 where "st1 = st\<lparr>history := history st @ Fetched (urlHourly w) # map Warned ws\<rparr>"
    obtain rest where "history (snd (present (engine w) (JArr []) False hilo2 (unitsSel w)
          (record_event (Fetched (urlHilo w)) st1))) =
        history (record_event (Fetched (urlHilo w)) st1)
          @ [NoteCalled False, ChartCalled (JArr []) hilo2 (unitsSel w)] @ rest"
      using history_present by blast
    then have "history (snd (loadData_v2 w st)) =
                 history st
                 @ [Fetched (urlHourly w)] @ map Warned ws
                 @ [Fetched (urlHilo w), NoteCalled False,
                    ChartCalled (JArr []) hilo2 (unitsSel w)]
                 @ rest"
      by (simp add: d extrema_v2_present [OF ok] record_event_def hilo2_def [symmetric]
            ws_def [symmetric] st1_def [symmetric])
         (simp add: st1_def)
    then show "\<exists>warned rest. history (snd (loadData_v2 w st)) =
                 history st
                 @ [Fetched (urlHourly w)] @ map Warned warned
                 @ [Fetched (urlHilo w), NoteCalled False,
                    ChartCalled (JArr []) (if isArray p then p else JArr []) (unitsSel w)]
                 @ rest"
      unfolding hilo2_def by blast
  qed
  from a b c d e show ?thesis
    by blast
qed

lemma fetch_hourly_hilo_only:
  "fetchJSON (network (sample_world net_hilo_only)) (urlHourly (sample_world net_hilo_only))
     = Inl (Error (JStr ''HTTP 404''))"
  by (simp add: fetchJSON_def fetchJSON_resp_def sample_world_def net_hilo_only_def
        last_urlHourly show_nat_404)

lemma fetch_hilo_hilo_only:
  "fetchJSON (network (sample_world net_hilo_only)) (urlHilo (sample_world net_hilo_only))
     = Inr hilo_reply"
  by (simp add: fetchJSON_def fetchJSON_resp_def sample_world_def net_hilo_only_def
        last_urlHilo hilo_reply_def own_member_def)

lemma chart_data_null: "chart_data js JNull hilo units = Inl TypeError"
  by (simp add: chart_data_def bindE_def)

lemma present_null:
  "present js JNull b hilo units st =
     (Inl TypeError, record_event (ChartCalled JNull hilo units) (setHiloNote b st))"
  by (simp add: present_def renderChart_def chart_data_null Let_def)

lemma loadData_v1_faults:
  assumes "fetchJSON (network w) (urlHourly w) = Inl e"
    and "fetchJSON (network w) (urlHilo w) = Inr hiloRes"
    and "getprop hiloRes ''predictions'' = Inr p"
  shows "loadData_v1 w st =
           (Inl TypeError,
            st\<lparr>hiloNote := ''Station provides high/low predictions only; no hourly series available.'',
               history := history st @
                 [Fetched (urlHourly w), Fetched (urlHilo w), NoteCalled False,
                  ChartCalled JNull (if truthy p then p else JArr []) (unitsSel w)]\<rparr>)"
  using assms
  by (simp add: loadData_v1_def hourly_v1_fail extrema_v1_present present_null
        record_event_def setHiloNote_def)

text \<open>
  In the second copy the value of \<^verbatim>\<open>hourly\<close> after the \<^verbatim>\<open>try\<close> statement is an array
  whatever the hourly request does, so \<^verbatim>\<open>hourly.length\<close> and \<^verbatim>\<open>hourly.map\<close> in
  \<open>renderChart\<close> are reads of an array.
\<close>

lemma hourly_v2_isArray: "isArray (fst (hourly_v2 w))"
  by (simp add: hourly_v2_def isArray_def Let_def split: sum.splits jsval.splits)

lemma isArray_access:
  "isArray h \<Longrightarrow>
     \<exists>vs. h = JArr vs \<and> getprop h ''length'' = Inr (JNum (of_nat (length vs)))
          \<and> array_map f h = mapE f vs"
  by (cases h) (simp_all add: isArray_def)

text \<open>
  C3 does not hold for the first copy of the script. There \<^verbatim>\<open>hourly\<close> starts as
  \<open>null\<close> and the \<^verbatim>\<open>catch\<close> clause leaves it so: with an hourly request answered by
  status 404 and an extrema request answered with two points, \<open>renderChart\<close> receives
  \<open>null\<close>, its read of \<^verbatim>\<open>hourly.length\<close> throws a \<open>TypeError\<close>, \<open>loadData\<close> fails
  with it, and neither a chart nor a table row is made. The second copy starts from the
  empty array and passes that.
\<close>

theorem loadData_v1_null_hourly:
  "fst (hourly_v1 (sample_world net_hilo_only)) = JNull
   \<and> fst (loadData_v1 (sample_world net_hilo_only) initial_page) = Inl TypeError
   \<and> chart (snd (loadData_v1 (sample_world net_hilo_only) initial_page)) = None
   \<and> tbody (snd (loadData_v1 (sample_world net_hilo_only) initial_page)) = []
   \<and> fst (hourly_v2 (sample_world net_hilo_only)) = JArr []"
proof -
  note p = hilo_reply_points
  show ?thesis
    using loadData_v1_faults [OF fetch_hourly_hilo_only fetch_hilo_hilo_only p, of initial_page]
      hourly_v1_fail [OF fetch_hourly_hilo_only] hourly_v2_fail [OF fetch_hourly_hilo_only]
    by (simp add: initial_page_def)
qed

section \<open>The two series\<close>

lemma has_time_props: "has_time p \<Longrightarrow> \<exists>v. getprop p k = Inr v"
  by (cases p) (simp_all add: has_time_def)

lemma label_of_ok: "has_time p \<Longrightarrow> \<exists>d. label_of p = Inr d"
  by (auto simp: has_time_def label_of_def bindE_def split: sum.splits jsval.splits)

lemma value_of_ok: "has_time p \<Longrightarrow> \<exists>n. value_of js p = Inr n"
  using has_time_props [of p "''v''"] by (auto simp: value_of_def bindE_def)

lemma point_of_ok: "has_time p \<Longrightarrow> \<exists>pt. point_of js p = Inr pt"
  using label_of_ok [of p] value_of_ok [of p js] has_time_props [of p "''type''"]
  by (auto simp: point_of_def bindE_def)

lemma table_row_ok: "has_time p \<Longrightarrow> \<exists>cells. table_row js units p = Inr cells"
  using label_of_ok [of p] value_of_ok [of p js] has_time_props [of p "''type''"]
  by (auto simp: table_row_def bindE_def Let_def)

lemma point_of_parts:
  "point_of js p = Inr pt \<Longrightarrow> label_of p = Inr (pt_x pt) \<and> value_of js p = Inr (pt_y pt)"
  by (auto simp: point_of_def bindE_def split: sum.splits)

lemma mapE_total: "\<forall>v\<in>set vs. \<exists>y. f v = Inr y \<Longrightarrow> \<exists>ys. mapE f vs = Inr ys"
  by (induction vs) auto

lemma mapE_length: "mapE f vs = Inr ys \<Longrightarrow> length ys = length vs"
  by (induction vs arbitrary: ys) (auto split: sum.splits)

lemma mapE_points:
  "mapE (point_of js) vs = Inr pts
     \<Longrightarrow> mapE label_of vs = Inr (map pt_x pts) \<and> mapE (value_of js) vs = Inr (map pt_y pts)"
proof (induction vs arbitrary: pts)
  case Nil
  then show ?case by simp
next
  case (Cons v vs)
  from Cons.prems obtain pt rest where pt: "point_of js v = Inr pt"
    and rest: "mapE (point_of js) vs = Inr rest" and pts: "pts = pt # rest"
    by (auto split: sum.splits)
  from Cons.IH [OF rest] point_of_parts [OF pt] pts show ?case
    by simp
qed

lemma chart_data_hourly:
  assumes "hs \<noteq> []"
  shows "chart_data js (JArr hs) hilo units =
     bindE (mapE label_of hs) (\<lambda>labels'.
     bindE (mapE (value_of js) hs) (\<lambda>series.
     bindE (array_map (point_of js) hilo) (\<lambda>hiloPoints.
     Inr \<lparr>labels = labels',
          line_label = ''Hourly predictions ('' @ unitLabel units @ '')'',
          line_data = series,
          scatter_label = ''High / Low markers'',
          scatter_data = hiloPoints,
          y_title = ''Height ('' @ unitLabel units @ '')'',
          tooltip_unit = unitLabel units\<rparr>)))"
  using assms by (simp add: chart_data_def bindE_def)

lemma chart_data_extrema_only:
  "chart_data js (JArr []) hilo units =
     bindE (array_map label_of hilo) (\<lambda>labels'.
     bindE (array_map (value_of js) hilo) (\<lambda>series.
     bindE (array_map (point_of js) hilo) (\<lambda>hiloPoints.
     Inr \<lparr>labels = labels',
          line_label = ''High/Low points ('' @ unitLabel units @ '')'',
          line_data = series,
          scatter_label = ''High / Low markers'',
          scatter_data = hiloPoints,
          y_title = ''Height ('' @ unitLabel units @ '')'',
          tooltip_unit = unitLabel units\<rparr>)))"
  by (simp add: chart_data_def bindE_def)

lemma chart_data_ok:
  assumes hs: "\<forall>p\<in>set hs. has_time p" and ms: "\<forall>p\<in>set ms. has_time p"
  shows "\<exists>cfg. chart_data js (JArr hs) (JArr ms) units = Inr cfg
       \<and> mapE (point_of js) ms = Inr (scatter_data cfg)
       \<and> length (scatter_data cfg) = length ms
       \<and> (hs \<noteq> [] \<longrightarrow> mapE (value_of js) hs = Inr (line_data cfg)
                       \<and> mapE label_of hs = Inr (labels cfg)
                       \<and> length (line_data cfg) = length hs \<and> length (labels cfg) = length hs)
       \<and> (hs = [] \<longrightarrow> line_data cfg = map pt_y (scatter_data cfg)
                       \<and> labels cfg = map pt_x (scatter_data cfg))"
proof -
  obtain pts where pts: "mapE (point_of js) ms = Inr pts"
    using mapE_total [of ms "point_of js"] point_of_ok ms by blast
  note mp = mapE_points [OF pts]
  show ?thesis
  proof (cases "hs = []")
    case True
    with pts mp show ?thesis
      by (simp add: chart_data_extrema_only bindE_def mapE_length [OF pts])
  next
    case False
    obtain ls where ls: "mapE label_of hs = Inr ls"
      using mapE_total [of hs label_of] label_of_ok hs by blast
    obtain vs where vs: "mapE (value_of js) hs = Inr vs"
      using mapE_total [of hs "value_of js"] value_of_ok hs by blast
    from False pts ls vs show ?thesis
      by (simp add: chart_data_hourly bindE_def mapE_length [OF pts] mapE_length [OF ls]
            mapE_length [OF vs])
  qed
qed

lemma table_rows_ok:
  "\<forall>p\<in>set rows. has_time p \<Longrightarrow> fst (table_rows js units rows st) = Inr ()"
proof (induction rows arbitrary: st)
  case Nil
  then show ?case by simp
next
  case (Cons r rows)
  then obtain cells where "table_row js units r = Inr cells"
    using table_row_ok [of r js units] by auto
  with Cons show ?case by simp
qed

lemma renderTable_ok:
  "\<forall>p\<in>set ms. has_time p \<Longrightarrow> fst (renderTable js (JArr ms) units st) = Inr ()"
  by (simp add: renderTable_def Let_def table_rows_ok)

lemma present_ok:
  assumes cd: "chart_data js h (JArr ms) units = Inr cfg" and ms: "\<forall>p\<in>set ms. has_time p"
  shows "fst (present js h b (JArr ms) units st) = Inr ()
       \<and> history (snd (present js h b (JArr ms) units st)) =
           history st @ [NoteCalled b, ChartCalled h (JArr ms) units]
             @ (case chart st of Some c \<Rightarrow> [Destroyed c] | None \<Rightarrow> [])
             @ [Created (next_chart st) cfg, TableCalled (JArr ms) units]"
proof (cases "renderChart js h (JArr ms) units (setHiloNote b st)")
  case (Pair r st4)
  have r: "r = Inr ()"
    using fst_renderChart [of js h "JArr ms" units "setHiloNote b st"] Pair cd by simp
  have hc: "history st4 = history st @ [NoteCalled b, ChartCalled h (JArr ms) units]
              @ (case chart st of Some c \<Rightarrow> [Destroyed c] | None \<Rightarrow> [])
              @ [Created (next_chart st) cfg]"
    using history_renderChart [of js h "JArr ms" units "setHiloNote b st"] Pair cd
    by (simp add: setHiloNote_def record_event_def chart_events_def)
  from Pair r hc ms show ?thesis
    by (simp add: present_def history_renderTable renderTable_ok)
qed

lemma hourly_v1_array:
  "fetchJSON (network w) (urlHourly w) = Inr res \<Longrightarrow> getprop res ''predictions'' = Inr (JArr hs)
     \<Longrightarrow> hourly_v1 w = (JArr hs, hs \<noteq> [])"
  by (simp add: hourly_v1_def)

lemma hourly_v2_array:
  "fetchJSON (network w) (urlHourly w) = Inr res \<Longrightarrow> getprop res ''predictions'' = Inr (JArr hs)
     \<Longrightarrow> hourly_v2 w = (JArr hs, hs \<noteq> [], None)"
  by (simp add: hourly_v2_def isArray_def)

text \<open>
  C4. Let the hourly request be answered with the points \<open>hs\<close> and the extrema request
  with the points \<open>ms\<close>, every point with a string \<^verbatim>\<open>t\<close>. Then both copies of
  \<open>loadData\<close> succeed and construct one chart, whose scatter data are the \<open>length ms\<close>
  points built from \<open>ms\<close>. If \<open>hs\<close> is not empty, \<^verbatim>\<open>supportsHourly\<close> is true and the
  line data and the labels are built from \<open>hs\<close> and have \<open>length hs\<close> entries. If
  \<open>hs\<close> is empty, \<^verbatim>\<open>supportsHourly\<close> is false and the line data and the labels are
  the \<open>y\<close> and the \<open>x\<close> of the scatter data.
\<close>

theorem series_pair:
  assumes hr: "fetchJSON (network w) (urlHourly w) = Inr res"
    and hp: "getprop res ''predictions'' = Inr (JArr hs)"
    and hs: "\<forall>p\<in>set hs. has_time p"
    and mr: "fetchJSON (network w) (urlHilo w) = Inr hiloRes"
    and mp: "getprop hiloRes ''predictions'' = Inr (JArr ms)"
    and ms: "\<forall>p\<in>set ms. has_time p"
  shows "\<exists>cfg. chart_data (engine w) (JArr hs) (JArr ms) (unitsSel w) = Inr cfg
       \<and> mapE (point_of (engine w)) ms = Inr (scatter_data cfg)
       \<and> length (scatter_data cfg) = length ms
       \<and> snd (hourly_v1 w) = (hs \<noteq> []) \<and> fst (snd (hourly_v2 w)) = (hs \<noteq> [])
       \<and> (hs \<noteq> [] \<longrightarrow> mapE (value_of (engine w)) hs = Inr (line_data cfg)
                       \<and> mapE label_of hs = Inr (labels cfg)
                       \<and> length (line_data cfg) = length hs \<and> length (labels cfg) = length hs)
       \<and> (hs = [] \<longrightarrow> line_data cfg = map pt_y (scatter_data cfg)
                       \<and> labels cfg = map pt_x (scatter_data cfg))
       \<and> fst (loadData_v1 w st) = Inr () \<and> fst (loadData_v2 w st) = Inr ()
       \<and> history (snd (loadData_v1 w st)) =
           history st
           @ [Fetched (urlHourly w), Fetched (urlHilo w), NoteCalled (hs \<noteq> []),
              ChartCalled (JArr hs) (JArr ms) (unitsSel w)]
           @ (case chart st of Some c \<Rightarrow> [Destroyed c] | None \<Rightarrow> [])
           @ [Created (next_chart st) cfg, TableCalled (JArr ms) (unitsSel w)]
       \<and> history (snd (loadData_v2 w st)) = history (snd (loadData_v1 w st))"
proof -
  obtain cfg where cd: "chart_data (engine w) (JArr hs) (JArr ms) (unitsSel w) = Inr cfg"
    and rest: "mapE (point_of (engine w)) ms = Inr (scatter_data cfg)"
       "length (scatter_data cfg) = length ms"
       "hs \<noteq> [] \<longrightarrow> mapE (value_of (engine w)) hs = Inr (line_data cfg)
                       \<and> mapE label_of hs = Inr (labels cfg)
                       \<and> length (line_data cfg) = length hs \<and> length (labels cfg) = length hs"
       "hs = [] \<longrightarrow> line_data cfg = map pt_y (scatter_data cfg)
                       \<and> labels cfg = map pt_x (scatter_data cfg)"
    using chart_data_ok [OF hs ms, of "engine w" "unitsSel w"] by blast
  define st1 where "st1 = record_event (Fetched (urlHilo w)) (record_event (Fetched (urlHourly w)) st)"
  have l1: "loadData_v1 w st = present (engine w) (JArr hs) (hs \<noteq> []) (JArr ms) (unitsSel w) st1"
    by (simp add: loadData_v1_def hourly_v1_array [OF hr hp] extrema_v1_present [OF mr mp] st1_def)
  have l2: "loadData_v2 w st = present (engine w) (JArr hs) (hs \<noteq> []) (JArr ms) (unitsSel w) st1"
    by (simp add: loadData_v2_def hourly_v2_array [OF hr hp] extrema_v2_present [OF mr mp] st1_def
          isArray_def)
  note pr = present_ok [OF cd ms, of "hs \<noteq> []" st1]
  have h1: "history (snd (loadData_v1 w st)) =
           history st
           @ [Fetched (urlHourly w), Fetched (urlHilo w), NoteCalled (hs \<noteq> []),
              ChartCalled (JArr hs) (JArr ms) (unitsSel w)]
           @ (case chart st of Some c \<Rightarrow> [Destroyed c] | None \<Rightarrow> [])
           @ [Created (next_chart st) cfg, TableCalled (JArr ms) (unitsSel w)]"
    using pr by (simp add: l1) (simp add: st1_def record_event_def)
  have s1: "snd (hourly_v1 w) = (hs \<noteq> [])"
    by (simp add: hourly_v1_array [OF hr hp])
  have s2: "fst (snd (hourly_v2 w)) = (hs \<noteq> [])"
    by (simp add: hourly_v2_array [OF hr hp])
  have f1: "fst (loadData_v1 w st) = Inr ()" using pr by (simp add: l1)
  have f2: "fst (loadData_v2 w st) = Inr ()" using pr by (simp add: l2)
  have h2: "history (snd (loadData_v2 w st)) = history (snd (loadData_v1 w st))"
    by (simp add: l1 l2)
  from cd rest s1 s2 f1 f2 h1 h2 show ?thesis
    by blast
qed

lemma fetch_hourly_full:
  "fetchJSON (network (sample_world net_full)) (urlHourly (sample_world net_full)) = Inr hourly_reply"
  by (simp add: fetchJSON_def fetchJSON_resp_def sample_world_def net_full_def
        last_urlHourly hourly_reply_def own_member_def)

lemma fetch_hilo_full:
  "fetchJSON (network (sample_world net_full)) (urlHilo (sample_world net_full)) = Inr hilo_reply"
  by (simp add: fetchJSON_def fetchJSON_resp_def sample_world_def net_full_def
        last_urlHilo hilo_reply_def own_member_def)

theorem series_pair_witness:
  "fst (loadData_v1 (sample_world net_full) initial_page) = Inr ()
   \<and> fst (loadData_v2 (sample_world net_full) initial_page) = Inr ()
   \<and> snd (hourly_v1 (sample_world net_full)) = True
   \<and> NoteCalled True \<in> set (history (snd (loadData_v2 (sample_world net_full) initial_page)))"
  using series_pair [OF fetch_hourly_full hourly_reply_points hourly_points_timed
      fetch_hilo_full hilo_reply_points hilo_points_timed, of initial_page]
  by (auto simp: hourly_points_def)

text \<open>
  The second copy falls back to the extrema: when the hourly request throws and the
  extrema request is answered with points that carry a string \<^verbatim>\<open>t\<close>, the load
  succeeds, and the line of the chart is drawn through the extrema.
\<close>

lemma loadData_v2_falls_back:
  assumes hr: "fetchJSON (network w) (urlHourly w) = Inl e"
    and mr: "fetchJSON (network w) (urlHilo w) = Inr hiloRes"
    and mp: "getprop hiloRes ''predictions'' = Inr (JArr ms)"
    and ms: "\<forall>p\<in>set ms. has_time p"
  shows "\<exists>cfg. chart_data (engine w) (JArr []) (JArr ms) (unitsSel w) = Inr cfg
       \<and> line_data cfg = map pt_y (scatter_data cfg)
       \<and> fst (loadData_v2 w st) = Inr ()
       \<and> history (snd (loadData_v2 w st)) =
           history st
           @ [Fetched (urlHourly w), Warned e, Fetched (urlHilo w), NoteCalled False,
              ChartCalled (JArr []) (JArr ms) (unitsSel w)]
           @ (case chart st of Some c \<Rightarrow> [Destroyed c] | None \<Rightarrow> [])
           @ [Created (next_chart st) cfg, TableCalled (JArr ms) (unitsSel w)]"
proof -
  obtain cfg where cd: "chart_data (engine w) (JArr []) (JArr ms) (unitsSel w) = Inr cfg"
    and ld: "line_data cfg = map pt_y (scatter_data cfg)"
    using chart_data_ok [of "[]" ms "engine w" "unitsSel w"] ms by auto
  define st1 where "st1 = record_event (Fetched (urlHilo w))
      (record_event (Warned e) (record_event (Fetched (urlHourly w)) st))"
  have l: "loadData_v2 w st = present (engine w) (JArr []) False (JArr ms) (unitsSel w) st1"
    by (simp add: loadData_v2_def hourly_v2_fail [OF hr] extrema_v2_present [OF mr mp] st1_def
          isArray_def)
  from present_ok [OF cd ms, of False st1] cd ld show ?thesis
    by (simp add: l) (simp add: st1_def record_event_def)
qed

text \<open>
  C2 does not hold for the first copy of the script when the hourly request throws.
  With the hourly request answered by status 404 and the extrema request answered with
  two points, the error of the hourly request is caught, the note is set and
  \<open>renderChart\<close> is called, but with \<open>null\<close>: \<open>loadData\<close> fails with the
  \<open>TypeError\<close> of that call, no chart is constructed and \<open>renderTable\<close> is never
  called. The second copy recovers on the same input: the load succeeds, the chart is
  constructed from the extrema and the table is filled.
\<close>

theorem loadData_v1_hourly_failure_surfaces:
  "fetchJSON (network (sample_world net_hilo_only)) (urlHourly (sample_world net_hilo_only))
     = Inl (Error (JStr ''HTTP 404''))
   \<and> fst (loadData_v1 (sample_world net_hilo_only) initial_page) = Inl TypeError
   \<and> filter presentation_event (history (snd (loadData_v1 (sample_world net_hilo_only) initial_page)))
       = [NoteCalled False, ChartCalled JNull (JArr hilo_points) ''metric'']
   \<and> live (snd (loadData_v1 (sample_world net_hilo_only) initial_page)) = {}
   \<and> tbody (snd (loadData_v1 (sample_world net_hilo_only) initial_page)) = []
   \<and> fst (loadData_v2 (sample_world net_hilo_only) initial_page) = Inr ()
   \<and> (\<exists>cfg. filter presentation_event
               (history (snd (loadData_v2 (sample_world net_hilo_only) initial_page)))
             = [NoteCalled False, ChartCalled (JArr []) (JArr hilo_points) ''metric'',
                Created 0 cfg, TableCalled (JArr hilo_points) ''metric''])"
proof -
  have u: "unitsSel (sample_world net_hilo_only) = ''metric''"
    by (simp add: sample_world_def)
  have v1: "loadData_v1 (sample_world net_hilo_only) initial_page =
           (Inl TypeError,
            initial_page\<lparr>hiloNote := ''Station provides high/low predictions only; no hourly series available.'',
               history := history initial_page @
                 [Fetched (urlHourly (sample_world net_hilo_only)),
                  Fetched (urlHilo (sample_world net_hilo_only)), NoteCalled False,
                  ChartCalled JNull (JArr hilo_points) ''metric'']\<rparr>)"
    using loadData_v1_faults [OF fetch_hourly_hilo_only fetch_hilo_hilo_only hilo_reply_points,
        of initial_page]
    by (simp add: u)
  obtain cfg where v2: "fst (loadData_v2 (sample_world net_hilo_only) initial_page) = Inr ()"
    and h2: "history (snd (loadData_v2 (sample_world net_hilo_only) initial_page)) =
           history initial_page
           @ [Fetched (urlHourly (sample_world net_hilo_only)), Warned (Error (JStr ''HTTP 404'')),
              Fetched (urlHilo (sample_world net_hilo_only)), NoteCalled False,
              ChartCalled (JArr []) (JArr hilo_points) ''metric'']
           @ (case chart initial_page of Some c \<Rightarrow> [Destroyed c] | None \<Rightarrow> [])
           @ [Created (next_chart initial_page) cfg, TableCalled (JArr hilo_points) ''metric'']"
    using loadData_v2_falls_back [OF fetch_hourly_hilo_only fetch_hilo_hilo_only hilo_reply_points
        hilo_points_timed, of initial_page]
    by (auto simp: u)
  have p2: "filter presentation_event
               (history (snd (loadData_v2 (sample_world net_hilo_only) initial_page)))
             = [NoteCalled False, ChartCalled (JArr []) (JArr hilo_points) ''metric'',
                Created 0 cfg, TableCalled (JArr hilo_points) ''metric'']"
    unfolding h2 by (simp add: initial_page_def)
  have p1: "filter presentation_event
               (history (snd (loadData_v1 (sample_world net_hilo_only) initial_page)))
             = [NoteCalled False, ChartCalled JNull (JArr hilo_points) ''metric'']"
    and l1: "live (snd (loadData_v1 (sample_world net_hilo_only) initial_page)) = {}"
    and t1: "tbody (snd (loadData_v1 (sample_world net_hilo_only) initial_page)) = []"
    and f1: "fst (loadData_v1 (sample_world net_hilo_only) initial_page) = Inl TypeError"
    unfolding v1 by (simp_all add: initial_page_def)
  from fetch_hourly_hilo_only f1 p1 l1 t1 v2 p2 show ?thesis
    by blast
qed

section \<open>The calendar\<close>

text \<open>Bounds of a quotient, in a form that needs no case split.\<close>

lemma div_lower: "0 < k \<Longrightarrow> x - (k - 1) \<le> k * (x div k)" for x k :: int
proof -
  assume k: "0 < k"
  have "x = k * (x div k) + x mod k" by simp
  moreover have "x mod k < k" using k by simp
  ultimately show ?thesis by linarith
qed

lemma div_upper: "0 < k \<Longrightarrow> k * (x div k) \<le> x" for x k :: int
proof -
  assume k: "0 < k"
  have "x = k * (x div k) + x mod k" by simp
  moreover have "0 \<le> x mod k" using k by simp
  ultimately show ?thesis by linarith
qed

lemma DayFromYear_upper: "400 * DayFromYear y \<le> 146097 * (y - 1970) + 589"
proof -
  define a where "a = (y - 1969) div 4"
  define b where "b = (y - 1901) div 100"
  define c where "c = (y - 1601) div 400"
  have "4 * a \<le> y - 1969" unfolding a_def by (rule div_upper) simp
  moreover have "y - 2000 \<le> 100 * b"
    unfolding b_def using div_lower [of 100 "y - 1901"] by simp
  moreover have "400 * c \<le> y - 1601" unfolding c_def by (rule div_upper) simp
  ultimately show ?thesis
    unfolding DayFromYear_def a_def [symmetric] b_def [symmetric] c_def [symmetric]
    by (simp add: algebra_simps)
qed

lemma DayFromYear_lower: "146097 * (y - 1970) - 506 \<le> 400 * DayFromYear y"
proof -
  define a where "a = (y - 1969) div 4"
  define b where "b = (y - 1901) div 100"
  define c where "c = (y - 1601) div 400"
  have "y - 1972 \<le> 4 * a"
    unfolding a_def using div_lower [of 4 "y - 1969"] by simp
  moreover have "100 * b \<le> y - 1901" unfolding b_def by (rule div_upper) simp
  moreover have "y - 2000 \<le> 400 * c"
    unfolding c_def using div_lower [of 400 "y - 1601"] by simp
  ultimately show ?thesis
    unfolding DayFromYear_def a_def [symmetric] b_def [symmetric] c_def [symmetric]
    by (simp add: algebra_simps)
qed

text \<open>
  \<open>YearFromTime\<close> gives the year of the ECMAScript specification: the year whose first
  day is not after the day of \<open>t\<close>, while the first day of the next year is.
\<close>

lemma YearFromTime_bounds:
  "DayFromYear (YearFromTime t) \<le> Day t \<and> Day t < DayFromYear (YearFromTime t + 1)"
proof -
  define d where "d = Day t"
  define u where "u = (400 * d) div 146097"
  have u1: "146097 * u \<le> 400 * d" unfolding u_def by (rule div_upper) simp
  have u2: "400 * d - 146096 \<le> 146097 * u"
    unfolding u_def using div_lower [of 146097 "400 * d"] by simp
  have A: "d < DayFromYear (1972 + u)"
    using DayFromYear_lower [of "1972 + u"] u2 by (simp add: algebra_simps)
  have B: "DayFromYear (1969 + u) \<le> d"
    using DayFromYear_upper [of "1969 + u"] u1 by (simp add: algebra_simps)
  show ?thesis
    unfolding YearFromTime_def d_def [symmetric] Let_def u_def [symmetric]
    using A B by (auto simp: algebra_simps)
qed

lemma div_Suc_int:
  "0 < k \<Longrightarrow> (x + 1) div k = x div k + (if (x + 1) mod k = 0 then 1 else 0)" for x k :: int
proof -
  assume k: "0 < k"
  define q where "q = x div k"
  define r where "r = x mod k"
  have x: "x = k * q + r" by (simp add: q_def r_def)
  have r: "0 \<le> r" "r < k" using k by (simp_all add: r_def)
  show ?thesis
  proof (cases "r + 1 = k")
    case True
    then have e: "x + 1 = k * (q + 1) + 0" using x by (simp add: algebra_simps)
    have "(x + 1) div k = q + 1" using e k by (intro int_div_pos_eq [of _ _ _ 0]) auto
    moreover have "(x + 1) mod k = 0" using e k by (intro int_mod_pos_eq [of _ _ "q + 1"]) auto
    ultimately show ?thesis by (simp add: q_def)
  next
    case False
    then have lt: "r + 1 < k" using r by simp
    have e: "x + 1 = k * q + (r + 1)" using x by simp
    have "(x + 1) div k = q" using e r lt by (intro int_div_pos_eq [of _ _ _ "r + 1"]) auto
    moreover have "(x + 1) mod k = r + 1" using e r lt by (intro int_mod_pos_eq [of _ _ q]) auto
    ultimately show ?thesis using r by (simp add: q_def)
  qed
qed

lemma mod_4_shift: "(y - 1968) mod 4 = 0 \<longleftrightarrow> y mod 4 = 0" for y :: int
proof -
  have "y - 1968 = y + 4 * (- 492)" by simp
  then have "(y - 1968) mod 4 = y mod 4" by (simp only: mod_mult_self2)
  then show ?thesis by simp
qed

lemma mod_100_shift: "(y - 1900) mod 100 = 0 \<longleftrightarrow> y mod 100 = 0" for y :: int
proof -
  have "y - 1900 = y + 100 * (- 19)" by simp
  then have "(y - 1900) mod 100 = y mod 100" by (simp only: mod_mult_self2)
  then show ?thesis by simp
qed

lemma mod_400_shift: "(y - 1600) mod 400 = 0 \<longleftrightarrow> y mod 400 = 0" for y :: int
proof -
  have "y - 1600 = y + 400 * (- 4)" by simp
  then have "(y - 1600) mod 400 = y mod 400" by (simp only: mod_mult_self2)
  then show ?thesis by simp
qed

lemma mod_400_100: "y mod 400 = 0 \<Longrightarrow> y mod 100 = 0" for y :: int
proof -
  assume "y mod 400 = 0"
  then have "400 dvd y" by (simp add: mod_eq_0_iff_dvd)
  moreover have "(100::int) dvd 400" by simp
  ultimately have "100 dvd y" by (rule dvd_trans [rotated])
  then show ?thesis by (simp add: mod_eq_0_iff_dvd)
qed

lemma mod_100_4: "y mod 100 = 0 \<Longrightarrow> y mod 4 = 0" for y :: int
proof -
  assume "y mod 100 = 0"
  then have "100 dvd y" by (simp add: mod_eq_0_iff_dvd)
  moreover have "(4::int) dvd 100" by simp
  ultimately have "4 dvd y" by (rule dvd_trans [rotated])
  then show ?thesis by (simp add: mod_eq_0_iff_dvd)
qed

lemma DayFromYear_Suc: "DayFromYear (y + 1) = DayFromYear y + DaysInYear y"
proof -
  have a: "(y + 1 - 1969) div 4 = (y - 1969) div 4 + (if y mod 4 = 0 then 1 else 0)"
    using div_Suc_int [of 4 "y - 1969"] mod_4_shift [of y] by (simp add: algebra_simps)
  have b: "(y + 1 - 1901) div 100 = (y - 1901) div 100 + (if y mod 100 = 0 then 1 else 0)"
    using div_Suc_int [of 100 "y - 1901"] mod_100_shift [of y] by (simp add: algebra_simps)
  have c: "(y + 1 - 1601) div 400 = (y - 1601) div 400 + (if y mod 400 = 0 then 1 else 0)"
    using div_Suc_int [of 400 "y - 1601"] mod_400_shift [of y] by (simp add: algebra_simps)
  show ?thesis
    unfolding DayFromYear_def DaysInYear_def a b c
    using mod_400_100 [of y] mod_100_4 [of y] by auto
qed

lemma DayWithinYear_range:
  "0 \<le> DayWithinYear t \<and> DayWithinYear t < DaysInYear (YearFromTime t)"
  using YearFromTime_bounds [of t] DayFromYear_Suc [of "YearFromTime t"]
  by (simp add: DayWithinYear_def)

lemma MonthFromTime_range: "0 \<le> MonthFromTime t \<and> MonthFromTime t \<le> 11"
  by (simp add: MonthFromTime_def Let_def)

lemma DateFromTime_range: "1 \<le> DateFromTime t \<and> DateFromTime t \<le> 31"
proof -
  define d where "d = DayWithinYear t"
  define l where "l = InLeapYear t"
  have l: "l = 0 \<or> l = 1" by (simp add: l_def InLeapYear_def)
  have d: "0 \<le> d" "d < 365 + l"
    using DayWithinYear_range [of t]
    by (auto simp: d_def l_def InLeapYear_def DaysInYear_def split: if_splits)
  show ?thesis
    unfolding DateFromTime_def MonthFromTime_def d_def [symmetric] l_def [symmetric] Let_def
    using l d by (auto simp: monthStart_def)
qed

lemma MakeDay_shift:
  "MakeDay (YearFromTime t) (MonthFromTime t) (DateFromTime t + k) = Day t + k"
proof -
  have m: "MonthFromTime t div 12 = 0" "MonthFromTime t mod 12 = MonthFromTime t"
    using MonthFromTime_range [of t] by simp_all
  show ?thesis
    by (simp add: MakeDay_def m DateFromTime_def InLeapYear_def DayWithinYear_def)
qed

text \<open>
  Setting the day of the month to the present day of the month plus \<open>k\<close> moves the local
  time by \<open>k\<close> days, across months and years.
\<close>

lemma setDate_shift:
  "setDate z tv (getDate z tv + k) = UTC z (LocalTime z tv + k * msPerDay)"
proof -
  have "MakeDate (Day t + k) (TimeWithinDay t) = t + k * msPerDay" for t
    by (simp add: MakeDate_def Day_def TimeWithinDay_def algebra_simps)
  then show ?thesis
    by (simp add: setDate_def getDate_def MakeDay_shift Let_def)
qed

lemma last7Next7_eq:
  "last7Next7 z now =
     (UTC z (LocalTime z now - 7 * msPerDay), UTC z (LocalTime z now + 7 * msPerDay))"
  using setDate_shift [of z now "- 7"] setDate_shift [of z now 7]
  by (simp add: last7Next7_def Let_def)

text \<open>
  C7, as stated, fails where the clock changes inside the window. On United States
  Pacific time, at noon of 8 March 2024 (20:00 UTC), the window runs from noon of
  1 March, standard time, to noon of 15 March, daylight saving time: the end is 14 days
  less one hour after the beginning.
\<close>

theorem window_across_clock_change:
  "last7Next7 pacific_zone 1709928000000 = (1709323200000, 1710529200000)
   \<and> (1710529200000 :: int) - 1709323200000 = 14 * msPerDay - 3600000"
  by (simp add: last7Next7_eq pacific_zone_def UTC_def LocalTime_def msPerDay_def)

text \<open>
  Where a shifted local time falls into the skipped hour, the engine reads it with the
  offset before the change. At 02:30 of 3 March the end of the window is 02:30 of
  10 March read as standard time (the clock then shows 03:30): the window has exactly
  14 days, though the offsets at its two ends differ. At 02:30 of 17 March the
  beginning is that same instant: the window has 14 days less one hour, though the
  offsets at its two ends are the same.
\<close>

lemma window_at_skipped_local_time:
  "last7Next7 pacific_zone 1709461800000 = (1708857000000, 1710066600000)
   \<and> (1710066600000 :: int) - 1708857000000 = 14 * msPerDay
   \<and> tza_utc pacific_zone 1708857000000 \<noteq> tza_utc pacific_zone 1710066600000
   \<and> last7Next7 pacific_zone 1710667800000 = (1710066600000, 1711272600000)
   \<and> (1711272600000 :: int) - 1710066600000 = 14 * msPerDay - 3600000
   \<and> tza_utc pacific_zone 1710066600000 = tza_utc pacific_zone 1711272600000"
  by (simp add: last7Next7_eq pacific_zone_def UTC_def LocalTime_def msPerDay_def)

text \<open>
  C7, amended. Let \<open>L\<close> be the local time of the present instant. The beginning and
  the end of the window are the instants that the engine assigns to the local times
  \<open>L\<close> minus 7 days and \<open>L\<close> plus 7 days, each read with the offset from UTC that
  the zone gives to that local time. So the end is 14 days after the beginning less the
  difference of these two offsets: exactly 14 days after it when the two local times
  are read with the same offset. When the offset at each of the two instants is the
  offset its local time was read with (the local time is not skipped), the local clock
  shows \<open>L\<close> minus 7 days at the beginning and \<open>L\<close> plus 7 days at the end,
  14 days apart. The present instant is strictly between the two (for offsets from UTC
  of at most a day).
\<close>

theorem window_fourteen_days:
  "last7Next7 z now =
     (UTC z (LocalTime z now - 7 * msPerDay), UTC z (LocalTime z now + 7 * msPerDay))
   \<and> snd (last7Next7 z now) - fst (last7Next7 z now) =
       14 * msPerDay
       - (tza_local z (LocalTime z now + 7 * msPerDay) - tza_local z (LocalTime z now - 7 * msPerDay))
   \<and> (tza_local z (LocalTime z now + 7 * msPerDay) = tza_local z (LocalTime z now - 7 * msPerDay)
        \<longrightarrow> snd (last7Next7 z now) - fst (last7Next7 z now) = 14 * msPerDay)
   \<and> (tza_utc z (fst (last7Next7 z now)) = tza_local z (LocalTime z now - 7 * msPerDay)
        \<and> tza_utc z (snd (last7Next7 z now)) = tza_local z (LocalTime z now + 7 * msPerDay)
        \<longrightarrow> LocalTime z (fst (last7Next7 z now)) = LocalTime z now - 7 * msPerDay
          \<and> LocalTime z (snd (last7Next7 z now)) = LocalTime z now + 7 * msPerDay
          \<and> LocalTime z (snd (last7Next7 z now)) - LocalTime z (fst (last7Next7 z now))
              = 14 * msPerDay)
   \<and> ((\<forall>t. \<bar>tza_utc z t\<bar> \<le> msPerDay \<and> \<bar>tza_local z t\<bar> \<le> msPerDay)
        \<longrightarrow> fst (last7Next7 z now) < now \<and> now < snd (last7Next7 z now))"
proof -
  define L where "L = LocalTime z now"
  have eq: "last7Next7 z now = (UTC z (L - 7 * msPerDay), UTC z (L + 7 * msPerDay))"
    by (simp add: last7Next7_eq L_def)
  have diff: "snd (last7Next7 z now) - fst (last7Next7 z now) =
       14 * msPerDay - (tza_local z (L + 7 * msPerDay) - tza_local z (L - 7 * msPerDay))"
    by (simp add: eq UTC_def)
  have clock: "LocalTime z (fst (last7Next7 z now)) = L - 7 * msPerDay
          \<and> LocalTime z (snd (last7Next7 z now)) = L + 7 * msPerDay
          \<and> LocalTime z (snd (last7Next7 z now)) - LocalTime z (fst (last7Next7 z now))
              = 14 * msPerDay"
    if "tza_utc z (fst (last7Next7 z now)) = tza_local z (L - 7 * msPerDay)"
      and "tza_utc z (snd (last7Next7 z now)) = tza_local z (L + 7 * msPerDay)"
  proof -
    have f: "LocalTime z (fst (last7Next7 z now)) = L - 7 * msPerDay"
      using that(1) by (simp add: LocalTime_def) (simp add: eq UTC_def)
    have s: "LocalTime z (snd (last7Next7 z now)) = L + 7 * msPerDay"
      using that(2) by (simp add: LocalTime_def) (simp add: eq UTC_def)
    from f s show ?thesis by simp
  qed
  have between: "fst (last7Next7 z now) < now \<and> now < snd (last7Next7 z now)"
    if b: "\<forall>t. \<bar>tza_utc z t\<bar> \<le> msPerDay \<and> \<bar>tza_local z t\<bar> \<le> msPerDay"
  proof -
    define a where "a = tza_utc z now"
    define b' where "b' = tza_local z (L - 7 * msPerDay)"
    define c where "c = tza_local z (L + 7 * msPerDay)"
    from b have bounds: "\<bar>a\<bar> \<le> msPerDay" "\<bar>b'\<bar> \<le> msPerDay" "\<bar>c\<bar> \<le> msPerDay"
      unfolding a_def b'_def c_def by blast+
    have f: "fst (last7Next7 z now) = now + a - 7 * msPerDay - b'"
      by (simp add: eq UTC_def b'_def) (simp add: L_def LocalTime_def a_def)
    have s: "snd (last7Next7 z now) = now + a + 7 * msPerDay - c"
      by (simp add: eq UTC_def c_def) (simp add: L_def LocalTime_def a_def)
    have "0 < msPerDay" by (simp add: msPerDay_def)
    with bounds show ?thesis
      unfolding f s by linarith
  qed
  from eq diff clock between show ?thesis
    unfolding L_def by simp
qed

theorem window_fourteen_days_witness:
  "last7Next7 utc_zone 1717804800000 = (1717200000000, 1718409600000)
   \<and> (1718409600000 :: int) - 1717200000000 = 14 * msPerDay
   \<and> LocalTime utc_zone 1718409600000 - LocalTime utc_zone 1717200000000 = 14 * msPerDay
   \<and> (1717200000000 :: int) < 1717804800000 \<and> (1717804800000 :: int) < 1718409600000"
  using window_fourteen_days [of utc_zone 1717804800000]
  by (simp add: utc_zone_def UTC_def LocalTime_def msPerDay_def)

section \<open>The request URL\<close>

lemma show_nat_one: "n < 10 \<Longrightarrow> show_nat n = [digit n]"
  by (simp add: show_nat.simps)

lemma show_nat_two: "10 \<le> n \<Longrightarrow> n < 100 \<Longrightarrow> show_nat n = [digit (n div 10), digit (n mod 10)]"
  by (subst show_nat.simps) (simp add: show_nat_one)

lemma show_nat_step: "10 \<le> n \<Longrightarrow> show_nat n = show_nat (n div 10) @ [digit (n mod 10)]"
  by (subst show_nat.simps) simp

lemma show_nat_four: "1000 \<le> n \<Longrightarrow> n < 10000 \<Longrightarrow> length (show_nat n) = 4"
  by (simp add: show_nat_step show_nat_one)

lemma digit_0: "digit 0 = CHR ''0''"
  by code_simp

lemma show_int_nonneg: "0 \<le> i \<Longrightarrow> show_int i = show_nat (nat i)"
  by (simp add: show_int_def)

lemma two_digits:
  "0 \<le> i \<Longrightarrow> i < 100 \<Longrightarrow>
     padStart 2 (CHR ''0'') (show_int i) = [digit (nat i div 10), digit (nat i mod 10)]"
proof (cases "i < 10")
  case True
  assume "0 \<le> i" "i < 100"
  with True show ?thesis
    by (simp add: padStart_def show_int_def show_nat_one digit_0)
next
  case False
  assume "0 \<le> i" "i < 100"
  with False show ?thesis
    by (simp add: padStart_def show_int_def show_nat_two)
qed

lemma fmtDate_shape:
  assumes "0 \<le> getFullYear z d"
  shows "fmtDate z d =
           show_nat (nat (getFullYear z d))
           @ [digit (nat (getMonth z d + 1) div 10), digit (nat (getMonth z d + 1) mod 10),
              digit (nat (getDate z d) div 10), digit (nat (getDate z d) mod 10)]"
proof -
  have m: "0 \<le> getMonth z d + 1" "getMonth z d + 1 < 100"
    using MonthFromTime_range [of "LocalTime z d"] by (simp_all add: getMonth_def)
  have dd: "0 \<le> getDate z d" "getDate z d < 100"
    using DateFromTime_range [of "LocalTime z d"] by (simp_all add: getDate_def)
  show ?thesis
    using assms by (simp add: fmtDate_def Let_def two_digits [OF m] two_digits [OF dd] show_int_nonneg)
qed

lemma fmtDate_length:
  assumes "1000 \<le> getFullYear z d" and "getFullYear z d \<le> 9999"
  shows "length (fmtDate z d) = 8"
  using assms by (simp add: fmtDate_shape show_nat_four)

lemma show_nat_2024: "show_nat 2024 = ''2024''"
  by code_simp

lemma digits_0_1_5_6:
  "digit 0 = CHR ''0''" "digit (Suc 0) = CHR ''1''" "digit 5 = CHR ''5''" "digit 6 = CHR ''6''"
  by code_simp+

lemma fmtDate_june_2024:
  assumes "getFullYear z d = 2024" and "getMonth z d = 5"
  shows "getDate z d = 1 \<longrightarrow> fmtDate z d = ''20240601''"
    and "getDate z d = 15 \<longrightarrow> fmtDate z d = ''20240615''"
  using assms by (simp_all add: fmtDate_shape show_nat_2024 digits_0_1_5_6)


lemma urlencode_plain: "\<forall>c\<in>set s. unreserved c \<Longrightarrow> urlencode s = s"
  by (induction s) (simp_all add: urlencode_def encode_char_def)

lemma hex_all: "list_all (\<lambda>n. hexval (hexdigit n) = Some n) [0..<16]"
  by code_simp

lemma hexval_hexdigit: "n < 16 \<Longrightarrow> hexval (hexdigit n) = Some n"
  using hex_all by (simp add: list_all_iff)

lemma hex_safe_all:
  "list_all (\<lambda>n. hexdigit n \<noteq> CHR ''&'' \<and> hexdigit n \<noteq> CHR ''='') [0..<16]"
  by code_simp

lemma hexdigit_safe: "n < 16 \<Longrightarrow> hexdigit n \<noteq> CHR ''&'' \<and> hexdigit n \<noteq> CHR ''=''"
  using hex_safe_all by (simp add: list_all_iff)

lemma unreserved_plain:
  "unreserved c \<Longrightarrow> c \<noteq> CHR ''+'' \<and> c \<noteq> CHR ''%'' \<and> c \<noteq> CHR ''&'' \<and> c \<noteq> CHR ''=''"
  by (auto simp: unreserved_def)

lemma of_char_bound: "(of_char c :: nat) div 16 < 16"
proof -
  have "(of_char c :: nat) < 16 * 16" by simp
  then show ?thesis by (rule less_mult_imp_div_less)
qed

lemma decode_encode_char: "urldecode (encode_char c @ rest) = c # urldecode rest"
proof (cases "unreserved c")
  case True
  with unreserved_plain [OF True] show ?thesis
    by (simp add: encode_char_def)
next
  case False
  show ?thesis
  proof (cases "c = CHR '' ''")
    case True
    with False show ?thesis by (simp add: encode_char_def)
  next
    case sp: False
    have "char_of (16 * ((of_char c :: nat) div 16) + (of_char c :: nat) mod 16) = c"
      by simp
    with False sp show ?thesis
      by (simp add: encode_char_def hexval_hexdigit of_char_bound)
  qed
qed

lemma urldecode_urlencode: "urldecode (urlencode s) = s"
  by (induction s) (simp_all add: urlencode_def decode_encode_char)

lemma encode_char_safe: "CHR ''&'' \<notin> set (encode_char c) \<and> CHR ''='' \<notin> set (encode_char c)"
  using unreserved_plain [of c] hexdigit_safe [of "(of_char c :: nat) div 16"]
    hexdigit_safe [of "(of_char c :: nat) mod 16"] of_char_bound [of c]
  by (auto simp: encode_char_def)

lemma urlencode_safe: "CHR ''&'' \<notin> set (urlencode s) \<and> CHR ''='' \<notin> set (urlencode s)"
  using encode_char_safe by (induction s) (auto simp: urlencode_def)

lemma split_on_nonempty: "split_on c s \<noteq> []"
  by (induction s) (auto split: list.splits)

lemma split_on_plain: "c \<notin> set p \<Longrightarrow> split_on c p = [p]"
  by (induction p) auto

lemma split_on_append: "c \<notin> set p \<Longrightarrow> split_on c (p @ c # rest) = p # split_on c rest"
  by (induction p) auto

lemma split_join:
  "xs \<noteq> [] \<Longrightarrow> \<forall>x\<in>set xs. CHR ''&'' \<notin> set x \<Longrightarrow> split_on (CHR ''&'') (join_amp xs) = xs"
proof (induction xs rule: join_amp.induct)
  case 1
  then show ?case by simp
next
  case (2 x)
  then show ?case by (simp add: split_on_plain)
next
  case (3 x y ys)
  then show ?case by (simp add: split_on_append)
qed

lemma parse_pair_encoded: "parse_pair (urlencode k @ ''='' @ urlencode v) = (k, v)"
proof -
  have k: "CHR ''='' \<notin> set (urlencode k)" using urlencode_safe by blast
  then have t: "takeWhile (\<lambda>c. c \<noteq> CHR ''='') (urlencode k @ CHR ''='' # urlencode v) = urlencode k"
    by (auto simp: takeWhile_tail)
  from k have d: "dropWhile (\<lambda>c. c \<noteq> CHR ''='') (urlencode k @ CHR ''='' # urlencode v)
      = CHR ''='' # urlencode v"
    by (auto simp: dropWhile_append3)
  show ?thesis
    by (simp add: parse_pair_def t d urldecode_urlencode)
qed

text \<open>Reading the serialised parameters gives the parameters back.\<close>

lemma parse_query_toString: "parse_query (params_toString ps) = ps"
proof (cases "ps = []")
  case True
  then show ?thesis by (simp add: parse_query_def params_toString_def)
next
  case False
  define pieces where "pieces = map (\<lambda>(k, v). urlencode k @ ''='' @ urlencode v) ps"
  have ne: "pieces \<noteq> []" using False by (simp add: pieces_def)
  have safe: "\<forall>x\<in>set pieces. CHR ''&'' \<notin> set x"
    using urlencode_safe by (auto simp: pieces_def)
  have full: "filter (\<lambda>p. p \<noteq> []) pieces = pieces"
    by (auto simp: pieces_def filter_id_conv)
  have decoded: "map parse_pair pieces = ps"
    unfolding pieces_def by (induction ps) (auto simp: parse_pair_encoded simp del: append.simps)
  have "parse_query (params_toString ps) =
          map parse_pair (filter (\<lambda>p. p \<noteq> []) (split_on (CHR ''&'') (join_amp pieces)))"
    unfolding parse_query_def params_toString_def pieces_def ..
  also have "\<dots> = ps"
    by (simp only: split_join [OF ne safe] full decoded)
  finally show ?thesis .
qed

text \<open>
  C6. For every datum and every units, the URL is the base address, a question mark
  and the serialised parameter list, from which a reader of the query string gets the
  list back; the list has exactly the parameters
  \<^verbatim>\<open>product\<close>, \<^verbatim>\<open>application\<close>, \<^verbatim>\<open>begin_date\<close>, \<^verbatim>\<open>end_date\<close>, \<^verbatim>\<open>datum\<close>,
  \<^verbatim>\<open>station\<close>, \<^verbatim>\<open>time_zone\<close>, \<^verbatim>\<open>units\<close> and \<^verbatim>\<open>format\<close>, in this order, followed
  by \<^verbatim>\<open>interval\<close> when a non-empty interval is given (\<^verbatim>\<open>60\<close>, \<^verbatim>\<open>hilo\<close>) and by
  nothing otherwise. A date of a year from 1000 to 9999 is formatted with eight
  digits, the year, the month and the day of the month in local time: 1 June 2024 is
  \<^verbatim>\<open>20240601\<close> and 15 June 2024 is \<^verbatim>\<open>20240615\<close>.
\<close>

theorem buildUrl_query:
  "buildUrl z a = API_BASE @ ''?'' @ params_toString (buildParams z a)
   \<and> parse_query (params_toString (buildParams z a)) = buildParams z a
   \<and> buildParams z a =
       [(''product'', a_product a),
        (''application'', ''Jeremy.Whidbey.Tides''),
        (''begin_date'', fmtDate z (a_begin a)),
        (''end_date'', fmtDate z (a_end a)),
        (''datum'', a_datum a),
        (''station'', ''9447856''),
        (''time_zone'', ''lst_ldt''),
        (''units'', a_units a),
        (''format'', ''json'')]
       @ (case a_interval a of
            None \<Rightarrow> []
          | Some i \<Rightarrow> if i = [] then [] else [(''interval'', i)])
   \<and> (\<forall>d. 1000 \<le> getFullYear z d \<and> getFullYear z d \<le> 9999 \<longrightarrow>
          length (fmtDate z d) = 8
          \<and> fmtDate z d =
              show_nat (nat (getFullYear z d))
              @ [digit (nat (getMonth z d + 1) div 10), digit (nat (getMonth z d + 1) mod 10),
                 digit (nat (getDate z d) div 10), digit (nat (getDate z d) mod 10)])
   \<and> (\<forall>d. getFullYear z d = 2024 \<and> getMonth z d = 5 \<and> getDate z d = 1 \<longrightarrow>
          fmtDate z d = ''20240601'')
   \<and> (\<forall>d. getFullYear z d = 2024 \<and> getMonth z d = 5 \<and> getDate z d = 15 \<longrightarrow>
          fmtDate z d = ''20240615'')"
  using fmtDate_june_2024 [of z]
  by (simp add: buildUrl_def parse_query_toString buildParams_eq fmtDate_length)
     (simp add: fmtDate_shape)

lemma june_2024:
  "getFullYear utc_zone 1717200000000 = 2024" "getMonth utc_zone 1717200000000 = 5"
  "getDate utc_zone 1717200000000 = 1"
  "getFullYear utc_zone 1718409600000 = 2024" "getMonth utc_zone 1718409600000 = 5"
  "getDate utc_zone 1718409600000 = 15"
  by code_simp+

lemma urlencode_samples:
  "urlencode ''product'' = ''product''" "urlencode ''predictions'' = ''predictions''"
  "urlencode ''application'' = ''application''"
  "urlencode ''Jeremy.Whidbey.Tides'' = ''Jeremy.Whidbey.Tides''"
  "urlencode ''begin_date'' = ''begin_date''" "urlencode ''end_date'' = ''end_date''"
  "urlencode ''20240601'' = ''20240601''" "urlencode ''20240615'' = ''20240615''"
  "urlencode ''datum'' = ''datum''" "urlencode ''MLLW'' = ''MLLW''"
  "urlencode ''station'' = ''station''" "urlencode ''9447856'' = ''9447856''"
  "urlencode ''time_zone'' = ''time_zone''" "urlencode ''lst_ldt'' = ''lst_ldt''"
  "urlencode ''units'' = ''units''" "urlencode ''english'' = ''english''"
  "urlencode ''format'' = ''format''" "urlencode ''json'' = ''json''"
  "urlencode ''interval'' = ''interval''" "urlencode ''hilo'' = ''hilo''"
  by code_simp+

theorem buildUrl_query_witness:
  "buildUrl utc_zone
     \<lparr>a_begin = 1717200000000, a_end = 1718409600000, a_product = ''predictions'',
      a_interval = Some ''hilo'', a_datum = ''MLLW'', a_units = ''english''\<rparr>
   = ''https://api.tidesandcurrents.noaa.gov/api/prod/datagetter?product=predictions&application=Jeremy.Whidbey.Tides&begin_date=20240601&end_date=20240615&datum=MLLW&station=9447856&time_zone=lst_ldt&units=english&format=json&interval=hilo''
   \<and> buildUrl utc_zone
     \<lparr>a_begin = 1717200000000, a_end = 1718409600000, a_product = ''predictions'',
      a_interval = None, a_datum = ''MLLW'', a_units = ''english''\<rparr>
   = ''https://api.tidesandcurrents.noaa.gov/api/prod/datagetter?product=predictions&application=Jeremy.Whidbey.Tides&begin_date=20240601&end_date=20240615&datum=MLLW&station=9447856&time_zone=lst_ldt&units=english&format=json''"
proof -
  have b: "fmtDate utc_zone 1717200000000 = ''20240601''"
    and e: "fmtDate utc_zone 1718409600000 = ''20240615''"
    using buildUrl_query [of utc_zone] june_2024 by blast+
  show ?thesis
    using buildUrl_query [of utc_zone "\<lparr>a_begin = 1717200000000, a_end = 1718409600000, a_product = ''predictions'',
      a_interval = Some ''hilo'', a_datum = ''MLLW'', a_units = ''english''\<rparr>"]
      buildUrl_query [of utc_zone "\<lparr>a_begin = 1717200000000, a_end = 1718409600000, a_product = ''predictions'',
      a_interval = None, a_datum = ''MLLW'', a_units = ''english''\<rparr>"]
    by (simp add: b e params_toString_def urlencode_samples API_BASE_def)
qed

section \<open>Heights and types\<close>

lemma show_nat_nonempty: "show_nat n \<noteq> []"
  by (subst show_nat.simps) simp

lemma pad3:
  "padStart 3 (CHR ''0'') (show_nat n) =
     show_nat (n div 100) @ [digit (n div 10 mod 10), digit (n mod 10)]"
proof -
  consider "n < 10" | "10 \<le> n" "n < 100" | "100 \<le> n" by linarith
  then show ?thesis
  proof cases
    case 1
    then show ?thesis
      by (simp add: padStart_def show_nat_one digit_0 numeral_2_eq_2)
  next
    case 2
    then show ?thesis
      by (simp add: padStart_def show_nat_two show_nat_one digit_0)
  next
    case 3
    then have s: "show_nat n = show_nat (n div 100) @ [digit (n div 10 mod 10), digit (n mod 10)]"
      by (simp add: show_nat_step [of n] show_nat_step [of "n div 10"] div_mult2_eq [symmetric])
    have "3 \<le> length (show_nat n)"
      using show_nat_nonempty [of "n div 100"] by (cases "show_nat (n div 100)") (simp_all add: s)
    then show ?thesis
      by (simp add: padStart_def s)
  qed
qed

lemma toFixed2_finite:
  assumes "\<bar>r\<bar> < 10 ^ 21"
  shows "toFixed2 js (Finite r) =
     (if r < 0 then ''-'' else [])
     @ show_nat (nat \<lfloor>\<bar>r\<bar> * 100 + 1 / 2\<rfloor> div 100) @ ''.''
     @ [digit (nat \<lfloor>\<bar>r\<bar> * 100 + 1 / 2\<rfloor> div 10 mod 10),
        digit (nat \<lfloor>\<bar>r\<bar> * 100 + 1 / 2\<rfloor> mod 10)]"
  using assms by (simp add: toFixed2_def Let_def pad3)

lemma nearest_hundredth:
  "\<bar>of_int \<lfloor>\<bar>r\<bar> * 100 + 1 / 2\<rfloor> - \<bar>r\<bar> * 100\<bar> \<le> 1 / 2" for r :: rat
  by linarith

lemma toFixed2_two_fraction_digits:
  "\<bar>r\<bar> < 10 ^ 21 \<Longrightarrow> toFixed2 js (Finite r) = two_fraction_digits r"
  by (simp add: toFixed2_finite two_fraction_digits_def Let_def)

lemma show_nat_3: "show_nat 3 = ''3''"
  by code_simp

lemma digits_1_4: "digit (Suc 0) = CHR ''1''" "digit 4 = CHR ''4''"
  by code_simp+

lemma two_fraction_digits_314:
  assumes "\<bar>r - 314159 / 100000\<bar> \<le> 1 / 1000"
  shows "two_fraction_digits r = ''3.14''"
proof -
  have "r - 314159 / 100000 \<le> 1 / 1000"
    using assms by (rule abs_le_D1)
  then have hi: "r \<le> 314259 / 100000" by linarith
  have "- (r - 314159 / 100000) \<le> 1 / 1000"
    using assms by (rule abs_le_D2)
  then have lo: "314059 / 100000 \<le> r" by linarith
  from lo have pos: "0 < r" by simp
  from lo hi pos have "\<lfloor>\<bar>r\<bar> * 100 + 1 / 2\<rfloor> = 314"
    by (simp add: floor_eq_iff)
  then show ?thesis
    using pos by (simp add: two_fraction_digits_def show_nat_3 digits_1_4)
qed

lemma chart_data_unit:
  "chart_data js hourly hilo units = Inr cfg \<Longrightarrow> tooltip_unit cfg = unitLabel units
     \<and> y_title cfg = ''Height ('' @ unitLabel units @ '')''"
  by (auto simp: chart_data_def bindE_def split: sum.splits)

text \<open>
  C8. Let the height \<^verbatim>\<open>row.v\<close> be read by \<^verbatim>\<open>Number\<close> as a finite number \<open>r\<close> below
  \<open>10\<^sup>2\<^sup>1\<close> in size. Then, for every units, the height cell of the table row and
  the label of the tooltip are \<open>r\<close> with exactly two fraction digits, the nearest
  number of hundredths, then a space and the unit label, which is \<^verbatim>\<open>m\<close> when units
  is \<^verbatim>\<open>metric\<close> and \<^verbatim>\<open>ft\<close> for every other value. A number within a thousandth
  of 3.14159 is presented as \<^verbatim>\<open>3.14\<close>.
\<close>

theorem height_rendering:
  assumes "getprop row ''v'' = Inr v" and "ToNumber js v = Finite r" and "\<bar>r\<bar> < 10 ^ 21"
    and "has_time row"
  shows "(\<exists>dt ty. table_row js units row =
            Inr [LocaleDate dt, LocaleTime dt, Text ty,
                 Text (two_fraction_digits r @ '' '' @ (if units = ''metric'' then ''m'' else ''ft''))])
       \<and> (\<forall>hourly hilo cfg. chart_data js hourly hilo units = Inr cfg \<longrightarrow>
             tooltip_label js cfg (Finite r) =
               two_fraction_digits r @ '' '' @ (if units = ''metric'' then ''m'' else ''ft''))
       \<and> \<bar>of_int \<lfloor>\<bar>r\<bar> * 100 + 1 / 2\<rfloor> - \<bar>r\<bar> * 100\<bar> \<le> 1 / 2
       \<and> (\<bar>r - 314159 / 100000\<bar> \<le> 1 / 1000 \<longrightarrow> two_fraction_digits r = ''3.14'')"
proof -
  obtain dt where dt: "label_of row = Inr dt"
    using label_of_ok assms(4) by blast
  obtain ty where ty: "getprop row ''type'' = Inr ty"
    using has_time_props assms(4) by blast
  have row: "table_row js units row =
            Inr [LocaleDate dt, LocaleTime dt, Text (if ty = JStr ''H'' then ''High'' else ''Low''),
                 Text (two_fraction_digits r @ '' '' @ (if units = ''metric'' then ''m'' else ''ft''))]"
    using assms(1,2,3) dt ty
    by (simp add: table_row_def bindE_def value_of_def Let_def toFixed2_two_fraction_digits
          unitLabel_def)
  have tip: "tooltip_label js cfg (Finite r) =
               two_fraction_digits r @ '' '' @ (if units = ''metric'' then ''m'' else ''ft'')"
    if "chart_data js hourly hilo units = Inr cfg" for hourly hilo cfg
    using chart_data_unit [OF that] assms(3)
    by (simp add: tooltip_label_def toFixed2_two_fraction_digits unitLabel_def)
  from row tip nearest_hundredth [of r] two_fraction_digits_314 [of r] show ?thesis
    by blast
qed

theorem height_rendering_witness:
  "table_row sample_engine ''metric''
      (JObj [(''t'', JStr ''2024-06-08 03:12''), (''v'', JStr ''3.14159''), (''type'', JStr ''H'')])
     = Inr [LocaleDate (Date ''2024-06-08T03:12''), LocaleTime (Date ''2024-06-08T03:12''),
            Text ''High'', Text ''3.14 m'']
   \<and> table_row sample_engine ''english''
      (JObj [(''t'', JStr ''2024-06-08 03:12''), (''v'', JStr ''3.14159''), (''type'', JStr ''H'')])
     = Inr [LocaleDate (Date ''2024-06-08T03:12''), LocaleTime (Date ''2024-06-08T03:12''),
            Text ''High'', Text ''3.14 ft'']"
proof -
  define row where "row = JObj [(''t'', JStr ''2024-06-08 03:12''), (''v'', JStr ''3.14159''), (''type'', JStr ''H'')]"
  define r :: rat where "r = 3537115888337719 / 1125899906842624"
  have v: "getprop row ''v'' = Inr (JStr ''3.14159'')"
    by (simp add: row_def own_member_def)
  have n: "ToNumber sample_engine (JStr ''3.14159'') = Finite r"
    by (simp add: sample_engine_def r_def)
  have small: "\<bar>r\<bar> < 10 ^ 21" by (simp add: r_def)
  have t: "has_time row" by (simp add: has_time_def row_def own_member_def)
  have near: "\<bar>r - 314159 / 100000\<bar> \<le> 1 / 1000" by (simp add: r_def)
  have l: "label_of row = Inr (Date ''2024-06-08T03:12'')"
    by (simp add: label_of_def bindE_def row_def own_member_def)
  have ty: "getprop row ''type'' = Inr (JStr ''H'')"
    by (simp add: row_def own_member_def)
  have tfd: "two_fraction_digits r = ''3.14''"
    using height_rendering [OF v n small t, of "''metric''"] near by blast
  have shape: "\<exists>h. table_row sample_engine units row =
      Inr [LocaleDate (Date ''2024-06-08T03:12''), LocaleTime (Date ''2024-06-08T03:12''),
           Text ''High'', Text h]" for units
    by (simp add: table_row_def bindE_def l ty value_of_def v)
  have "table_row sample_engine units row =
      Inr [LocaleDate (Date ''2024-06-08T03:12''), LocaleTime (Date ''2024-06-08T03:12''),
           Text ''High'', Text (''3.14 '' @ (if units = ''metric'' then ''m'' else ''ft''))]" for units
    using height_rendering [OF v n small t, of units] shape [of units]
    by (auto simp: tfd)
  from this [of "''metric''"] this [of "''english''"] show ?thesis
    unfolding row_def by simp
qed






section \<open>The chart\<close>

lemma chart_table_rows: "chart (snd (table_rows js units rows st)) = chart st
    \<and> live (snd (table_rows js units rows st)) = live st
    \<and> next_chart (snd (table_rows js units rows st)) = next_chart st"
  by (induction rows arbitrary: st) (auto split: sum.splits)

lemma chart_renderTable: "chart (snd (renderTable js hilo units st)) = chart st
    \<and> live (snd (renderTable js hilo units st)) = live st"
  by (simp add: renderTable_def Let_def record_event_def chart_table_rows split: sum.splits)

lemma one_chart_renderTable: "one_chart st \<Longrightarrow> one_chart (snd (renderTable js hilo units st))"
  by (simp add: one_chart_def chart_renderTable)

lemma renderChart_state:
  "snd (renderChart js hourly hilo units st) =
     (case chart_data js hourly hilo units of
        Inl e \<Rightarrow> st\<lparr>history := history st @ [ChartCalled hourly hilo units]\<rparr>
      | Inr cfg \<Rightarrow>
          st\<lparr>chart := Some (next_chart st),
             live := insert (next_chart st) (live st - set_option (chart st)),
             next_chart := Suc (next_chart st),
             history := history st @ [ChartCalled hourly hilo units]
               @ (case chart st of Some c \<Rightarrow> [Destroyed c] | None \<Rightarrow> [])
               @ [Created (next_chart st) cfg]\<rparr>)"
  by (simp add: renderChart_def Let_def record_event_def destroy_def new_Chart_def
        split: sum.splits option.splits)

lemma one_chart_renderChart:
  "one_chart st \<Longrightarrow> one_chart (snd (renderChart js hourly hilo units st))"
  by (simp add: renderChart_state one_chart_def split: sum.splits)

lemma one_chart_history: "one_chart (st\<lparr>history := h\<rparr>) = one_chart st"
  by (simp add: one_chart_def)

lemma one_chart_setHiloNote: "one_chart (setHiloNote b st) = one_chart st"
  by (simp add: one_chart_def setHiloNote_def record_event_def)

lemma one_chart_record: "one_chart (record_event e st) = one_chart st"
  by (simp add: one_chart_def record_event_def)

lemma one_chart_present:
  assumes "one_chart st"
  shows "one_chart (snd (present js hourly b hilo units st))"
proof (cases "renderChart js hourly hilo units (setHiloNote b st)")
  case (Pair r st4)
  have st4: "one_chart st4"
    using one_chart_renderChart [of "setHiloNote b st" js hourly hilo units] assms Pair
    by (simp add: one_chart_setHiloNote)
  show ?thesis
  proof (cases r)
    case (Inl e)
    with Pair st4 show ?thesis by (simp add: present_def)
  next
    case (Inr u)
    with Pair st4 show ?thesis by (simp add: present_def one_chart_renderTable)
  qed
qed

lemma one_chart_extrema_v1:
  "one_chart st \<Longrightarrow> one_chart (snd (extrema_v1 w hourly b st))"
  by (simp add: extrema_v1_def Let_def one_chart_record one_chart_present split: sum.splits)

lemma one_chart_extrema_v2:
  "one_chart st \<Longrightarrow> one_chart (snd (extrema_v2 w hourly b st))"
  by (simp add: extrema_v2_def Let_def one_chart_record one_chart_present split: sum.splits)

lemma one_chart_loadData_v1: "one_chart st \<Longrightarrow> one_chart (snd (loadData_v1 w st))"
  by (simp add: loadData_v1_def Let_def one_chart_record one_chart_extrema_v1 split: prod.splits)

lemma one_chart_loadData_v2: "one_chart st \<Longrightarrow> one_chart (snd (loadData_v2 w st))"
  by (simp add: loadData_v2_def Let_def one_chart_record one_chart_extrema_v2
        split: prod.splits option.splits)

lemma one_chart_session_v1: "one_chart st \<Longrightarrow> one_chart (session_v1 ws st)"
  by (induction ws arbitrary: st) (simp_all add: one_chart_loadData_v1)

lemma one_chart_session_v2: "one_chart st \<Longrightarrow> one_chart (session_v2 ws st)"
  by (induction ws arbitrary: st) (simp_all add: one_chart_loadData_v2)

lemma one_chart_card: "one_chart st \<Longrightarrow> finite (live st) \<and> card (live st) \<le> 1"
  by (cases "chart st") (simp_all add: one_chart_def)

text \<open>
  C10. At most one chart exists: the page starts with none, and on the page after any
  sequence of loads, of either copy of the script, the charts that are constructed and
  not destroyed are the one in the variable \<^verbatim>\<open>chart\<close>, if any. Every call of
  \<open>renderChart\<close> keeps this: when it builds its data it destroys the chart of the
  variable, if there is one, then constructs the new chart and stores it in the
  variable, so that the new chart is the only one; when it throws, it does so before
  either step and the chart is as before.
\<close>

theorem single_chart:
  "one_chart initial_page
   \<and> one_chart (session_v1 ws initial_page) \<and> card (live (session_v1 ws initial_page)) \<le> 1
   \<and> one_chart (session_v2 ws initial_page) \<and> card (live (session_v2 ws initial_page)) \<le> 1
   \<and> (one_chart st \<longrightarrow>
         one_chart (snd (renderChart js hourly hilo units st))
         \<and> card (live (snd (renderChart js hourly hilo units st))) \<le> 1
         \<and> (\<forall>cfg. chart_data js hourly hilo units = Inr cfg \<longrightarrow>
               history (snd (renderChart js hourly hilo units st)) =
                 history st @ [ChartCalled hourly hilo units]
                 @ (case chart st of Some c \<Rightarrow> [Destroyed c] | None \<Rightarrow> [])
                 @ [Created (next_chart st) cfg]
               \<and> chart (snd (renderChart js hourly hilo units st)) = Some (next_chart st)
               \<and> live (snd (renderChart js hourly hilo units st)) = {next_chart st})
         \<and> (\<forall>e. chart_data js hourly hilo units = Inl e \<longrightarrow>
               chart (snd (renderChart js hourly hilo units st)) = chart st
               \<and> live (snd (renderChart js hourly hilo units st)) = live st))"
proof -
  have i: "one_chart initial_page"
    by (simp add: one_chart_def initial_page_def)
  note s1 = one_chart_session_v1 [OF i, of ws] and s2 = one_chart_session_v2 [OF i, of ws]
  have r: "one_chart (snd (renderChart js hourly hilo units st))
         \<and> card (live (snd (renderChart js hourly hilo units st))) \<le> 1
         \<and> (\<forall>cfg. chart_data js hourly hilo units = Inr cfg \<longrightarrow>
               history (snd (renderChart js hourly hilo units st)) =
                 history st @ [ChartCalled hourly hilo units]
                 @ (case chart st of Some c \<Rightarrow> [Destroyed c] | None \<Rightarrow> [])
                 @ [Created (next_chart st) cfg]
               \<and> chart (snd (renderChart js hourly hilo units st)) = Some (next_chart st)
               \<and> live (snd (renderChart js hourly hilo units st)) = {next_chart st})
         \<and> (\<forall>e. chart_data js hourly hilo units = Inl e \<longrightarrow>
               chart (snd (renderChart js hourly hilo units st)) = chart st
               \<and> live (snd (renderChart js hourly hilo units st)) = live st)"
    if st: "one_chart st"
  proof -
    note a = one_chart_renderChart [OF st, of js hourly hilo units]
    have b: "live st - set_option (chart st) = {}"
      using st by (simp add: one_chart_def)
    show ?thesis
      using a one_chart_card [OF a] by (simp add: renderChart_state b)
  qed
  from i s1 s2 one_chart_card [OF s1] one_chart_card [OF s2] r show ?thesis
    by blast
qed

theorem single_chart_witness:
  "one_chart (session_v2 [sample_world net_hilo_only, sample_world net_hilo_only] initial_page)
   \<and> card (live (session_v2 [sample_world net_hilo_only, sample_world net_hilo_only] initial_page)) \<le> 1
   \<and> one_chart (snd (renderChart sample_engine (JArr []) (JArr hilo_points) ''metric'' initial_page))
   \<and> live (snd (renderChart sample_engine (JArr []) (JArr hilo_points) ''metric'' initial_page)) = {0}"
proof -
  have i: "one_chart initial_page"
    using single_chart by blast
  obtain cfg where cfg: "chart_data sample_engine (JArr []) (JArr hilo_points) ''metric'' = Inr cfg"
    using chart_data_ok [of "[]" hilo_points sample_engine "''metric''"] hilo_points_timed by auto
  from single_chart [of "[sample_world net_hilo_only, sample_world net_hilo_only]"
      initial_page sample_engine "JArr []" "JArr hilo_points" "''metric''"] i cfg
  show ?thesis
    by (auto simp: initial_page_def)
qed

end
